theory Spec2Isabelle
  imports Complex_Main
begin

section \<open>Values of the host language\<close>

text \<open>
  The backend is TypeScript on Express and Mongoose. Strings are modelled as lists of
  code units below 256; a \<open>Date\<close> is its \<open>getTime()\<close> value, the milliseconds since
  the epoch, as an integer; a Mongo \<open>ObjectId\<close> is its 24 character hexadecimal
  rendering. What the environment supplies to a request (the clock, a fresh id, the
  salt of bcrypt, the JWT library) is an argument of the operation that uses it.
\<close>

type_synonym date = int
type_synonym objectId = string

datatype json =
    JNull
  | JBool bool
  | JNum int
  | JStr string
  | JDate date
  | JArr "json list"
  | JObj "(string \<times> json) list"

record response =
  status :: nat
  body :: json

text \<open>Property access on a JSON value, \<open>body.data.user\<close> as \<open>jpath [''data'', ''user'']\<close>.\<close>

fun jfield :: "string \<Rightarrow> json \<Rightarrow> json" where
  "jfield k (JObj kvs) = (case map_of kvs k of Some v \<Rightarrow> v | None \<Rightarrow> JNull)"
| "jfield k v = JNull"

definition jpath :: "string list \<Rightarrow> json \<Rightarrow> json" where
  "jpath ks v = foldl (\<lambda>j k. jfield k j) v ks"

text \<open>
  Thrown values: a plain \<open>Error\<close> and the two Mongoose errors the services can meet.
  The messages of the library errors are shortened.
\<close>

datatype error = Error string | ValidationError string | CastError string

fun message :: "error \<Rightarrow> string" where
  "message (Error m) = m"
| "message (ValidationError m) = m"
| "message (CastError m) = m"

subsection \<open>Strings\<close>

definition code :: "char \<Rightarrow> nat" where
  "code c = of_char c"

text \<open>White space and line terminators of ECMAScript that fit a code unit below 256.\<close>

definition isWhiteSpace :: "char \<Rightarrow> bool" where
  "isWhiteSpace c = (code c \<in> {9, 10, 11, 12, 13, 32, 160})"

definition trim :: "string \<Rightarrow> string" where
  "trim s = rev (dropWhile isWhiteSpace (rev (dropWhile isWhiteSpace s)))"

definition toLowerCase_char :: "char \<Rightarrow> char" where
  "toLowerCase_char c =
     (let n = code c in
      if (65 \<le> n \<and> n \<le> 90) \<or> (192 \<le> n \<and> n \<le> 222 \<and> n \<noteq> 215)
      then char_of (n + 32) else c)"

definition toLowerCase :: "string \<Rightarrow> string" where
  "toLowerCase s = map toLowerCase_char s"

text \<open>\<open>s.includes(sub)\<close>: \<open>sub\<close> occurs in \<open>s\<close> as a contiguous run.\<close>

fun includes_str :: "string \<Rightarrow> string \<Rightarrow> bool" where
  "includes_str [] sub = (sub = [])"
| "includes_str (c # cs) sub = (take (length sub) (c # cs) = sub \<or> includes_str cs sub)"

text \<open>Truthiness of an optional string: \<open>undefined\<close> and \<open>''\<close> are falsy.\<close>

fun truthy :: "string option \<Rightarrow> bool" where
  "truthy None = False"
| "truthy (Some s) = (s \<noteq> [])"

subsection \<open>Regular expressions\<close>

text \<open>
  The patterns of the source use classes, concatenation, alternation and repetition
  only, so \<open>RegExp.prototype.test\<close> on an anchored pattern is membership in a regular
  language. It is decided here by derivatives.
\<close>

datatype cclass =
    CChar char            \<comment> \<open>a literal character\<close>
  | COneOf string         \<comment> \<open>\<open>[...]\<close>\<close>
  | CWord                 \<comment> \<open>\<open>\w\<close>\<close>
  | CDigit                \<comment> \<open>\<open>\d\<close>\<close>
  | CLower                \<comment> \<open>\<open>[a-z]\<close>\<close>
  | CUpper                \<comment> \<open>\<open>[A-Z]\<close>\<close>
  | CDot                  \<comment> \<open>\<open>.\<close>: any code unit but a line terminator\<close>
  | CNotSpaceAt           \<comment> \<open>\<open>[^\s@]\<close>\<close>

definition isLower :: "char \<Rightarrow> bool" where
  "isLower c = (97 \<le> code c \<and> code c \<le> 122)"

definition isUpper :: "char \<Rightarrow> bool" where
  "isUpper c = (65 \<le> code c \<and> code c \<le> 90)"

definition isDigit :: "char \<Rightarrow> bool" where
  "isDigit c = (48 \<le> code c \<and> code c \<le> 57)"

fun cmatch :: "cclass \<Rightarrow> char \<Rightarrow> bool" where
  "cmatch (CChar d) c = (c = d)"
| "cmatch (COneOf ds) c = (c \<in> set ds)"
| "cmatch CWord c = (isLower c \<or> isUpper c \<or> isDigit c \<or> code c = 95)"
| "cmatch CDigit c = isDigit c"
| "cmatch CLower c = isLower c"
| "cmatch CUpper c = isUpper c"
| "cmatch CDot c = (code c \<noteq> 10 \<and> code c \<noteq> 13)"
| "cmatch CNotSpaceAt c = (\<not> isWhiteSpace c \<and> c \<noteq> CHR ''@'')"

datatype regex =
    Nul
  | Eps
  | Cls cclass
  | Alt regex regex
  | Seq regex regex
  | Star regex

fun nullable :: "regex \<Rightarrow> bool" where
  "nullable Nul = False"
| "nullable Eps = True"
| "nullable (Cls k) = False"
| "nullable (Alt r s) = (nullable r \<or> nullable s)"
| "nullable (Seq r s) = (nullable r \<and> nullable s)"
| "nullable (Star r) = True"

text \<open>Constructors that drop the empty language and a repeated alternative.\<close>

definition alt :: "regex \<Rightarrow> regex \<Rightarrow> regex" where
  "alt r s = (if r = Nul then s else if s = Nul then r else if r = s then r else Alt r s)"

definition seq :: "regex \<Rightarrow> regex \<Rightarrow> regex" where
  "seq r s = (if r = Nul then Nul else if r = Eps then s else Seq r s)"

fun deriv :: "char \<Rightarrow> regex \<Rightarrow> regex" where
  "deriv c Nul = Nul"
| "deriv c Eps = Nul"
| "deriv c (Cls k) = (if cmatch k c then Eps else Nul)"
| "deriv c (Alt r s) = alt (deriv c r) (deriv c s)"
| "deriv c (Seq r s) =
     (if nullable r then alt (seq (deriv c r) s) (deriv c s) else seq (deriv c r) s)"
| "deriv c (Star r) = seq (deriv c r) (Star r)"

text \<open>\<open>/^r$/.test(s)\<close>\<close>

fun regex_test :: "regex \<Rightarrow> string \<Rightarrow> bool" where
  "regex_test r [] = nullable r"
| "regex_test r (c # cs) = regex_test (deriv c r) cs"

text \<open>\<open>/^r/.test(s)\<close>, also the lookahead \<open>(?=r)\<close> at the start: some prefix matches.\<close>

fun regex_test_prefix :: "regex \<Rightarrow> string \<Rightarrow> bool" where
  "regex_test_prefix r [] = nullable r"
| "regex_test_prefix r (c # cs) = (nullable r \<or> regex_test_prefix (deriv c r) cs)"

definition Rep1 :: "regex \<Rightarrow> regex" where
  "Rep1 r = Seq r (Star r)"

definition Opt :: "regex \<Rightarrow> regex" where
  "Opt r = Alt Eps r"

fun Seqs :: "regex list \<Rightarrow> regex" where
  "Seqs [] = Eps"
| "Seqs [r] = r"
| "Seqs (r # rs) = Seq r (Seqs rs)"

section \<open>The user model\<close>

subsection \<open>Libraries and environment\<close>

text \<open>
  bcryptjs, jsonwebtoken and the date parser of the runtime are not part of the
  repository. They are parameters of the model: \<open>hashSync salt p\<close> is
  \<open>bcrypt.hashSync(p, 10)\<close> when the generated salt is \<open>salt\<close>, \<open>jwt_sign\<close> and
  \<open>jwt_verify\<close> are \<open>jwt.sign\<close> and \<open>jwt.verify\<close> with the secret of the process at a
  given instant, \<open>Date_parse\<close> is \<open>new Date(string)\<close> with \<open>None\<close> for an invalid date.
\<close>

record jwt_payload =
  jp_userId :: string
  jp_email :: string

datatype jwt_error = JsonWebTokenError | TokenExpiredError | NotBeforeError

text \<open>
  In jsonwebtoken \<open>TokenExpiredError\<close> and \<open>NotBeforeError\<close> are subclasses of
  \<open>JsonWebTokenError\<close>.
\<close>

fun instanceof_JsonWebTokenError :: "jwt_error \<Rightarrow> bool" where
  "instanceof_JsonWebTokenError e = True"

fun instanceof_TokenExpiredError :: "jwt_error \<Rightarrow> bool" where
  "instanceof_TokenExpiredError e = (e = TokenExpiredError)"

record lib =
  hashSync :: "string \<Rightarrow> string \<Rightarrow> string"
  compareSync :: "string \<Rightarrow> string \<Rightarrow> bool"
  jwt_sign :: "jwt_payload \<Rightarrow> date \<Rightarrow> string"
  jwt_verify :: "string \<Rightarrow> date \<Rightarrow> jwt_error + jwt_payload"
  Date_parse :: "string \<Rightarrow> date option"

text \<open>What one request draws from the environment: the clock, a fresh ObjectId, a salt.\<close>

record env =
  e_now :: date
  e_newId :: objectId
  e_salt :: string

subsection \<open>ObjectId\<close>

definition isHex :: "char \<Rightarrow> bool" where
  "isHex c = (isDigit c \<or> (97 \<le> code c \<and> code c \<le> 102) \<or> (65 \<le> code c \<and> code c \<le> 70))"

text \<open>
  Casting a string of a query to an ObjectId: 24 hexadecimal digits, compared without
  regard to case; anything else is a \<open>CastError\<close>.
\<close>

definition castObjectId :: "string \<Rightarrow> error + objectId" where
  "castObjectId s =
     (if length s = 24 \<and> list_all isHex s then Inr (toLowerCase s)
      else Inl (CastError ''Cast to ObjectId failed''))"

subsection \<open>Collections\<close>

text \<open>The first document that satisfies the filter is the one a \<open>findOne...\<close> acts on.\<close>

fun updateFirst :: "('a \<Rightarrow> bool) \<Rightarrow> ('a \<Rightarrow> 'a) \<Rightarrow> 'a list \<Rightarrow> 'a list" where
  "updateFirst P f [] = []"
| "updateFirst P f (x # xs) = (if P x then f x # xs else x # updateFirst P f xs)"

fun deleteFirst :: "('a \<Rightarrow> bool) \<Rightarrow> 'a list \<Rightarrow> 'a list" where
  "deleteFirst P [] = []"
| "deleteFirst P (x # xs) = (if P x then xs else x # deleteFirst P xs)"

subsection \<open>User schema\<close>

record user =
  u_id :: objectId
  u_firstName :: string
  u_lastName :: string
  u_email :: string
  u_password :: "string option"   \<comment> \<open>\<open>None\<close>: not selected (\<open>select: false\<close>)\<close>
  u_surgeryDate :: "date option"
  u_recoveryDay :: int
  u_isActive :: bool
  u_preferences :: json
  u_createdAt :: date
  u_updatedAt :: date

text \<open>
  A Mongoose document of the model: its field values, whether it is new, and the paths
  marked modified. Setting a path of a loaded document marks it only when the value
  differs from the current one.
\<close>

record user_doc =
  vals :: user
  isNew :: bool
  modified :: "string list"

definition isModified :: "user_doc \<Rightarrow> string \<Rightarrow> bool" where
  "isModified d path = (path \<in> set (modified d))"

definition markModified :: "string \<Rightarrow> bool \<Rightarrow> user_doc \<Rightarrow> user_doc" where
  "markModified path differs d =
     (if isNew d \<or> differs then d\<lparr>modified := path # modified d\<rparr> else d)"

definition set_firstName :: "string \<Rightarrow> user_doc \<Rightarrow> user_doc" where
  "set_firstName v d =
     markModified ''firstName'' (u_firstName (vals d) \<noteq> trim v)
       (d\<lparr>vals := (vals d)\<lparr>u_firstName := trim v\<rparr>\<rparr>)"

definition set_lastName :: "string \<Rightarrow> user_doc \<Rightarrow> user_doc" where
  "set_lastName v d =
     markModified ''lastName'' (u_lastName (vals d) \<noteq> trim v)
       (d\<lparr>vals := (vals d)\<lparr>u_lastName := trim v\<rparr>\<rparr>)"

definition set_email :: "string \<Rightarrow> user_doc \<Rightarrow> user_doc" where
  "set_email v d =
     markModified ''email'' (u_email (vals d) \<noteq> toLowerCase (trim v))
       (d\<lparr>vals := (vals d)\<lparr>u_email := toLowerCase (trim v)\<rparr>\<rparr>)"

definition set_password :: "string \<Rightarrow> user_doc \<Rightarrow> user_doc" where
  "set_password v d =
     markModified ''password'' (u_password (vals d) \<noteq> Some v)
       (d\<lparr>vals := (vals d)\<lparr>u_password := Some v\<rparr>\<rparr>)"

definition set_isActive :: "bool \<Rightarrow> user_doc \<Rightarrow> user_doc" where
  "set_isActive v d =
     markModified ''isActive'' (u_isActive (vals d) \<noteq> v)
       (d\<lparr>vals := (vals d)\<lparr>u_isActive := v\<rparr>\<rparr>)"

definition set_surgeryDate :: "date \<Rightarrow> user_doc \<Rightarrow> user_doc" where
  "set_surgeryDate v d =
     markModified ''surgeryDate'' (u_surgeryDate (vals d) \<noteq> Some v)
       (d\<lparr>vals := (vals d)\<lparr>u_surgeryDate := Some v\<rparr>\<rparr>)"

definition set_preferences :: "json \<Rightarrow> user_doc \<Rightarrow> user_doc" where
  "set_preferences v d =
     markModified ''preferences'' (u_preferences (vals d) \<noteq> v)
       (d\<lparr>vals := (vals d)\<lparr>u_preferences := v\<rparr>\<rparr>)"

text \<open>\<open>new User({ email, password, firstName, lastName })\<close> with the defaults of the schema.\<close>

definition new_User :: "objectId \<Rightarrow> string \<Rightarrow> string \<Rightarrow> string \<Rightarrow> string \<Rightarrow> user_doc" where
  "new_User oid email password firstName lastName =
     set_lastName lastName (set_firstName firstName (set_password password (set_email email
       \<lparr>vals = \<lparr>u_id = oid, u_firstName = [], u_lastName = [], u_email = [],
                   u_password = None, u_surgeryDate = None, u_recoveryDay = 0,
                   u_isActive = True, u_preferences = JObj [], u_createdAt = 0,
                   u_updatedAt = 0\<rparr>,
        isNew = True, modified = []\<rparr>)))"

text \<open>A document as a query returns it; \<open>password\<close> is left out unless selected.\<close>

definition loaded :: "user \<Rightarrow> user_doc" where
  "loaded u = \<lparr>vals = u, isNew = False, modified = []\<rparr>"

definition select_minus_password :: "user \<Rightarrow> user" where
  "select_minus_password u = u\<lparr>u_password := None\<rparr>"

text \<open>\<open>/^\w+([.-]?\w+)*@\w+([.-]?\w+)*(\.\w{2,3})+$/\<close>, the \<open>match\<close> of the email path.\<close>

definition schemaEmailRegex :: regex where
  "schemaEmailRegex =
     Seqs [Rep1 (Cls CWord), Star (Seq (Opt (Cls (COneOf ''.-''))) (Rep1 (Cls CWord))),
           Cls (CChar CHR ''@''),
           Rep1 (Cls CWord), Star (Seq (Opt (Cls (COneOf ''.-''))) (Rep1 (Cls CWord))),
           Rep1 (Seqs [Cls (CChar CHR ''.''), Cls CWord, Cls CWord, Opt (Cls CWord)])]"

text \<open>The validators of the schema, each path reporting its first failure.\<close>

definition validate_firstName :: "string \<Rightarrow> string list" where
  "validate_firstName v =
     (if v = [] then [''firstName: First name is required'']
      else if length v < 2 then [''firstName: First name must be at least 2 characters long'']
      else if length v > 30 then [''firstName: First name cannot exceed 30 characters'']
      else [])"

definition validate_lastName :: "string \<Rightarrow> string list" where
  "validate_lastName v =
     (if v = [] then [''lastName: Last name is required'']
      else if length v < 2 then [''lastName: Last name must be at least 2 characters long'']
      else if length v > 30 then [''lastName: Last name cannot exceed 30 characters'']
      else [])"

definition validate_email :: "string \<Rightarrow> string list" where
  "validate_email v =
     (if v = [] then [''email: Email is required'']
      else if \<not> regex_test schemaEmailRegex v then [''email: Please enter a valid email address'']
      else [])"

definition validate_password :: "bool \<Rightarrow> string option \<Rightarrow> string list" where
  "validate_password new v =
     (case v of
        None \<Rightarrow> (if new then [''password: Password is required''] else [])
      | Some p \<Rightarrow>
          (if p = [] then [''password: Password is required'']
           else if length p < 4 then [''password: Password must be at least 4 characters long'']
           else []))"

definition validationErrors :: "user_doc \<Rightarrow> string list" where
  "validationErrors d =
     validate_firstName (u_firstName (vals d)) @ validate_lastName (u_lastName (vals d))
     @ validate_email (u_email (vals d)) @ validate_password (isNew d) (u_password (vals d))"

fun join :: "string \<Rightarrow> string list \<Rightarrow> string" where
  "join sep [] = []"
| "join sep [x] = x"
| "join sep (x # xs) = x @ sep @ join sep xs"

text \<open>
  \<open>userSchema.pre('save')\<close>: the password is hashed only when the path is marked
  modified.
\<close>

definition preSave :: "lib \<Rightarrow> string \<Rightarrow> user_doc \<Rightarrow> error + user_doc" where
  "preSave l slt this =
     (if \<not> isModified this ''password'' then Inr this
      else (case u_password (vals this) of
              None \<Rightarrow> Inl (Error ''Illegal arguments: undefined, number'')
            | Some p \<Rightarrow> Inr (this\<lparr>vals := (vals this)\<lparr>u_password := Some (hashSync l slt p)\<rparr>\<rparr>)))"

text \<open>The modified paths of a document written over the stored one.\<close>

definition writePaths :: "string list \<Rightarrow> user \<Rightarrow> user \<Rightarrow> user" where
  "writePaths paths d stored =
     stored\<lparr>u_firstName := (if ''firstName'' \<in> set paths then u_firstName d else u_firstName stored),
            u_lastName := (if ''lastName'' \<in> set paths then u_lastName d else u_lastName stored),
            u_email := (if ''email'' \<in> set paths then u_email d else u_email stored),
            u_password := (if ''password'' \<in> set paths then u_password d else u_password stored),
            u_surgeryDate :=
              (if ''surgeryDate'' \<in> set paths then u_surgeryDate d else u_surgeryDate stored),
            u_isActive := (if ''isActive'' \<in> set paths then u_isActive d else u_isActive stored),
            u_preferences :=
              (if ''preferences'' \<in> set paths then u_preferences d else u_preferences stored)\<rparr>"

text \<open>
  \<open>doc.save()\<close>: validation, then the pre-save hook, then the write. The email path
  carries a unique index. A new document is inserted with its timestamps; a loaded one
  has its modified paths written, if there are any.
\<close>

definition save :: "lib \<Rightarrow> env \<Rightarrow> user_doc \<Rightarrow> user list \<Rightarrow> error + (user_doc \<times> user list)" where
  "save l e d users =
     (case validationErrors d of
        x # xs \<Rightarrow> Inl (ValidationError (''User validation failed: '' @ join '', '' (x # xs)))
      | [] \<Rightarrow>
          (case preSave l (e_salt e) d of
             Inl err \<Rightarrow> Inl err
           | Inr d' \<Rightarrow>
               (if isNew d' then
                  (if list_ex (\<lambda>u. u_email u = u_email (vals d')) users
                   then Inl (Error ''E11000 duplicate key error'')
                   else (let u = (vals d')\<lparr>u_createdAt := e_now e, u_updatedAt := e_now e\<rparr>
                         in Inr (\<lparr>vals = u, isNew = False, modified = []\<rparr>, users @ [u])))
                else if modified d' = [] then Inr (d', users)
                else if isModified d' ''email''
                        \<and> list_ex (\<lambda>u. u_email u = u_email (vals d') \<and> u_id u \<noteq> u_id (vals d'))
                             users
                then Inl (Error ''E11000 duplicate key error'')
                else Inr (d'\<lparr>modified := []\<rparr>,
                          updateFirst (\<lambda>u. u_id u = u_id (vals d'))
                            (\<lambda>u. (writePaths (modified d') (vals d') u)\<lparr>u_updatedAt := e_now e\<rparr>)
                            users))))"

text \<open>\<open>User.findOne({ email })\<close>; the setters of the path apply to the query value.\<close>

definition findOne_email :: "string \<Rightarrow> user list \<Rightarrow> user option" where
  "findOne_email email users = find (\<lambda>u. u_email u = toLowerCase (trim email)) users"

text \<open>\<open>User.findById(id)\<close>\<close>

definition findById :: "string \<Rightarrow> user list \<Rightarrow> error + user option" where
  "findById uid users =
     (case castObjectId uid of
        Inl err \<Rightarrow> Inl err
      | Inr oid \<Rightarrow> Inr (find (\<lambda>u. u_id u = oid) users))"

text \<open>\<open>userSchema.methods.comparePassword\<close>\<close>

definition comparePassword :: "lib \<Rightarrow> user \<Rightarrow> string \<Rightarrow> bool" where
  "comparePassword l this candidatePassword =
     (case u_password this of
        None \<Rightarrow> False
      | Some p \<Rightarrow> (if p = [] then False else compareSync l candidatePassword p))"

subsection \<open>Validation service\<close>

record registration_data =
  rd_firstName :: "string option"
  rd_lastName :: "string option"
  rd_email :: "string option"
  rd_password :: "string option"

record login_data =
  ld_email :: "string option"
  ld_password :: "string option"

record sanitized_data =
  sd_firstName :: "string option"
  sd_lastName :: "string option"
  sd_email :: string
  sd_password :: string

record validation_result =
  isValid :: bool
  errors :: "string list option"
  sanitizedData :: "sanitized_data option"

text \<open>\<open>/^[^\s@]+@[^\s@]+\.[^\s@]+$/\<close>\<close>

definition emailRegex :: regex where
  "emailRegex =
     Seqs [Rep1 (Cls CNotSpaceAt), Cls (CChar CHR ''@''), Rep1 (Cls CNotSpaceAt),
           Cls (CChar CHR ''.''), Rep1 (Cls CNotSpaceAt)]"

definition isValidEmail :: "string \<Rightarrow> bool" where
  "isValidEmail email = regex_test emailRegex email"

text \<open>\<open>/^(?=.*[a-z])(?=.*[A-Z])(?=.*\d)/\<close>: three lookaheads at the start.\<close>

definition passwordRegex_test :: "string \<Rightarrow> bool" where
  "passwordRegex_test password =
     (regex_test_prefix (Seq (Star (Cls CDot)) (Cls CLower)) password
      \<and> regex_test_prefix (Seq (Star (Cls CDot)) (Cls CUpper)) password
      \<and> regex_test_prefix (Seq (Star (Cls CDot)) (Cls CDigit)) password)"

definition validateRegistration :: "registration_data \<Rightarrow> validation_result" where
  "validateRegistration data =
     (let (errors1, firstName) =
            (if truthy (rd_firstName data) then
               (let trimmedFirstName = trim (case rd_firstName data of Some v \<Rightarrow> v | None \<Rightarrow> [])
                in if length trimmedFirstName < 2
                   then ([''First name must be at least 2 characters long''], None)
                   else ([], Some trimmedFirstName))
             else ([''First name is required''], None));
          (errors2, lastName) =
            (if truthy (rd_lastName data) then
               (let trimmedLastName = trim (case rd_lastName data of Some v \<Rightarrow> v | None \<Rightarrow> [])
                in if length trimmedLastName < 2
                   then ([''Last name must be at least 2 characters long''], None)
                   else ([], Some trimmedLastName))
             else ([''Last name is required''], None));
          email = map_option (\<lambda>v. toLowerCase (trim v)) (rd_email data);
          (errors3, email') =
            (case email of
               None \<Rightarrow> ([''Email is required''], None)
             | Some v \<Rightarrow>
                 (if v = [] then ([''Email is required''], None)
                  else if \<not> isValidEmail v then ([''Invalid email format''], None)
                  else ([], Some v)));
          password = rd_password data;
          (errors4, password') =
            (case password of
               None \<Rightarrow> ([''Password is required''], None)
             | Some v \<Rightarrow>
                 (if v = [] then ([''Password is required''], None)
                  else if length v < 8
                  then ([''Password must be at least 4 characters long''], None)
                  else if \<not> passwordRegex_test v
                  then ([''Password must contain at least one uppercase letter, one lowercase letter, and one number''],
                        None)
                  else ([], Some v)));
          errors = errors1 @ errors2 @ errors3 @ errors4
      in \<lparr>isValid = (length errors = 0),
          errors = (if length errors > 0 then Some errors else None),
          sanitizedData =
            (case (email', password') of
               (Some em, Some pw) \<Rightarrow>
                 (if length errors = 0
                  then Some \<lparr>sd_firstName = firstName, sd_lastName = lastName,
                              sd_email = em, sd_password = pw\<rparr>
                  else None)
             | _ \<Rightarrow> None)\<rparr>)"

definition validateLogin :: "login_data \<Rightarrow> validation_result" where
  "validateLogin data =
     (let email = map_option (\<lambda>v. toLowerCase (trim v)) (ld_email data);
          (errors1, email') =
            (case email of
               None \<Rightarrow> ([''Email is required''], None)
             | Some v \<Rightarrow>
                 (if v = [] then ([''Email is required''], None)
                  else if \<not> isValidEmail v then ([''Invalid email format''], None)
                  else ([], Some v)));
          password = ld_password data;
          (errors2, password') =
            (case password of
               None \<Rightarrow> ([''Password is required''], None)
             | Some v \<Rightarrow>
                 (if v = [] then ([''Password is required''], None) else ([], Some v)));
          errors = errors1 @ errors2
      in \<lparr>isValid = (length errors = 0),
          errors = (if length errors > 0 then Some errors else None),
          sanitizedData =
            (case (email', password') of
               (Some em, Some pw) \<Rightarrow>
                 (if length errors = 0
                  then Some \<lparr>sd_firstName = None, sd_lastName = None,
                              sd_email = em, sd_password = pw\<rparr>
                  else None)
             | _ \<Rightarrow> None)\<rparr>)"

subsection \<open>Auth service\<close>

record register_data =
  rg_email :: string
  rg_password :: string
  rg_firstName :: string
  rg_lastName :: string

record auth_user =
  au_id :: string
  au_email :: string
  au_firstName :: string
  au_lastName :: string

record auth_response =
  token :: string
  user :: auth_user

definition generateToken :: "lib \<Rightarrow> date \<Rightarrow> user \<Rightarrow> string" where
  "generateToken l t u = jwt_sign l \<lparr>jp_userId = u_id u, jp_email = u_email u\<rparr> t"

definition register ::
  "lib \<Rightarrow> env \<Rightarrow> register_data \<Rightarrow> user list \<Rightarrow> error + (auth_response \<times> user list)" where
  "register l e data users =
     (case findOne_email (rg_email data) users of
        Some existingUser \<Rightarrow> Inl (Error ''User with this email already exists'')
      | None \<Rightarrow>
          (case save l e (new_User (e_newId e) (rg_email data) (rg_password data)
                            (rg_firstName data) (rg_lastName data)) users of
             Inl err \<Rightarrow> Inl err
           | Inr (d, users') \<Rightarrow>
               Inr (\<lparr>token = generateToken l (e_now e) (vals d),
                     user = \<lparr>au_id = u_id (vals d), au_email = u_email (vals d),
                             au_firstName = u_firstName (vals d),
                             au_lastName = u_lastName (vals d)\<rparr>\<rparr>,
                    users')))"

definition login :: "lib \<Rightarrow> date \<Rightarrow> string \<Rightarrow> string \<Rightarrow> user list \<Rightarrow> error + auth_response" where
  "login l t email password users =
     (case findOne_email email users of
        None \<Rightarrow> Inl (Error ''Invalid email or password'')
      | Some u \<Rightarrow>
          (let isPasswordValid = comparePassword l u password
           in if \<not> isPasswordValid then Inl (Error ''Invalid email or password'')
              else Inr \<lparr>token = generateToken l t u,
                        user = \<lparr>au_id = u_id u, au_email = u_email u,
                                au_firstName = u_firstName u, au_lastName = u_lastName u\<rparr>\<rparr>))"

definition changePassword ::
  "lib \<Rightarrow> env \<Rightarrow> string \<Rightarrow> string \<Rightarrow> string \<Rightarrow> user list \<Rightarrow> error + user list" where
  "changePassword l e userId currentPassword newPassword users =
     (case findById userId users of
        Inl err \<Rightarrow> Inl err
      | Inr None \<Rightarrow> Inl (Error ''User not found'')
      | Inr (Some u) \<Rightarrow>
          (let isCurrentPasswordValid = comparePassword l u currentPassword
           in if \<not> isCurrentPasswordValid then Inl (Error ''Current password is incorrect'')
              else (case save l e (set_password newPassword (loaded u)) users of
                      Inl err \<Rightarrow> Inl err
                    | Inr (d, users') \<Rightarrow> Inr users')))"

subsection \<open>User service\<close>

record update_user_data =
  ud_firstName :: "string option"
  ud_lastName :: "string option"
  ud_email :: "string option"
  ud_isActive :: "bool option"
  ud_surgeryDate :: "date option"
  ud_preferences :: "json option"

definition getUserById :: "string \<Rightarrow> user list \<Rightarrow> error + user option" where
  "getUserById userId users =
     (case findById userId users of
        Inl err \<Rightarrow> Inl err
      | Inr r \<Rightarrow> Inr (map_option select_minus_password r))"

text \<open>\<open>Object.assign(user, updateData)\<close>: every key that the update carries is set.\<close>

definition assign :: "update_user_data \<Rightarrow> user_doc \<Rightarrow> user_doc" where
  "assign upd d =
     (let d1 = (case ud_firstName upd of None \<Rightarrow> d | Some v \<Rightarrow> set_firstName v d);
          d2 = (case ud_lastName upd of None \<Rightarrow> d1 | Some v \<Rightarrow> set_lastName v d1);
          d3 = (case ud_email upd of None \<Rightarrow> d2 | Some v \<Rightarrow> set_email v d2);
          d4 = (case ud_isActive upd of None \<Rightarrow> d3 | Some v \<Rightarrow> set_isActive v d3);
          d5 = (case ud_surgeryDate upd of None \<Rightarrow> d4 | Some v \<Rightarrow> set_surgeryDate v d4)
      in (case ud_preferences upd of None \<Rightarrow> d5 | Some v \<Rightarrow> set_preferences v d5))"

definition updateUser ::
  "lib \<Rightarrow> env \<Rightarrow> string \<Rightarrow> update_user_data \<Rightarrow> user list \<Rightarrow> error + (user option \<times> user list)" where
  "updateUser l e userId updateData users =
     (case findById userId users of
        Inl err \<Rightarrow> Inl err
      | Inr None \<Rightarrow> Inl (Error ''User not found'')
      | Inr (Some u0) \<Rightarrow>
          (let u = select_minus_password u0 in
           if truthy (ud_email updateData) \<and> ud_email updateData \<noteq> Some (u_email u)
              \<and> (case ud_email updateData of
                    Some em \<Rightarrow> findOne_email em users \<noteq> None
                  | None \<Rightarrow> False)
           then Inl (Error ''Email is already taken'')
           else (case save l e (assign updateData (loaded u)) users of
                   Inl err \<Rightarrow> Inl err
                 | Inr (d, users') \<Rightarrow>
                     (case getUserById userId users' of
                        Inl err \<Rightarrow> Inl err
                      | Inr r \<Rightarrow> Inr (r, users')))))"

definition deleteUser :: "string \<Rightarrow> user list \<Rightarrow> error + user list" where
  "deleteUser userId users =
     (case findById userId users of
        Inl err \<Rightarrow> Inl err
      | Inr None \<Rightarrow> Inl (Error ''User not found'')
      | Inr (Some u) \<Rightarrow> Inr (deleteFirst (\<lambda>x. u_id x = u_id u) users))"

definition deactivateUser ::
  "lib \<Rightarrow> env \<Rightarrow> string \<Rightarrow> user list \<Rightarrow> error + (user option \<times> user list)" where
  "deactivateUser l e userId users =
     (case findById userId users of
        Inl err \<Rightarrow> Inl err
      | Inr None \<Rightarrow> Inl (Error ''User not found'')
      | Inr (Some u0) \<Rightarrow>
          (case save l e (set_isActive False (loaded (select_minus_password u0))) users of
             Inl err \<Rightarrow> Inl err
           | Inr (d, users') \<Rightarrow>
               (case getUserById userId users' of
                  Inl err \<Rightarrow> Inl err
                | Inr r \<Rightarrow> Inr (r, users'))))"

subsection \<open>Recovery day\<close>

text \<open>
  \<open>userSchema.methods.calculateRecoveryDay\<close>. \<open>now\<close> is the value of \<open>new Date()\<close> at
  the call. The quotient is taken in the reals: for instants within the range of
  \<open>Date\<close> that lie less than 2^26 days apart the double quotient of the source has
  the same ceiling.
\<close>

definition calculateRecoveryDay :: "date \<Rightarrow> date option \<Rightarrow> int" where
  "calculateRecoveryDay now surgeryDate =
     (case surgeryDate of
        None \<Rightarrow> 0
      | Some sd \<Rightarrow>
          (let today = now;
               diffTime = today - sd;
               diffDays = \<lceil>real_of_int diffTime / real_of_int (1000 * 60 * 60 * 24)\<rceil>
           in max 0 diffDays))"

text \<open>
  The calendar day (UTC) of an instant, counted from the epoch: the reading of
  "today's date" and "yesterday's date" in the specification.
\<close>

definition utcDay :: "date \<Rightarrow> int" where
  "utcDay t = t div 86400000"

subsection \<open>Authorization gate\<close>

text \<open>\<open>s.split(sep)\<close> for a separator of one character.\<close>

fun split_str :: "char \<Rightarrow> string \<Rightarrow> string list" where
  "split_str sep [] = [[]]"
| "split_str sep (c # cs) =
     (if c = sep then [] # split_str sep cs
      else (case split_str sep cs of [] \<Rightarrow> [[c]] | w # ws \<Rightarrow> (c # w) # ws))"

record req_user =
  ru_id :: string
  ru_firstName :: string
  ru_lastName :: string
  ru_email :: string

text \<open>
  \<open>authenticateToken\<close>: \<open>Inl\<close> is the response that ends the request, \<open>Inr\<close> is
  \<open>req.user\<close> as handed on by \<open>next()\<close>. The argument \<open>t\<close> is the instant of the call.
\<close>

definition authenticateToken ::
  "lib \<Rightarrow> date \<Rightarrow> string option \<Rightarrow> user list \<Rightarrow> response + req_user" where
  "authenticateToken l t authorization users =
     (let authHeader = authorization;
          tok = (if truthy authHeader
                 then (let parts = split_str CHR '' '' (case authHeader of Some h \<Rightarrow> h | None \<Rightarrow> [])
                       in if 1 < length parts then Some (parts ! 1) else None)
                 else authHeader)
      in case tok of
           None \<Rightarrow>
             Inl \<lparr>status = 401,
                  body = JObj [(''success'', JBool False), (''error'', JStr ''Access token required'')]\<rparr>
         | Some tk \<Rightarrow>
             (if tk = [] then
                Inl \<lparr>status = 401,
                     body = JObj [(''success'', JBool False),
                                  (''error'', JStr ''Access token required'')]\<rparr>
              else
                (case jwt_verify l tk t of
                   Inl err \<Rightarrow>
                     (if instanceof_JsonWebTokenError err then
                        Inl \<lparr>status = 401,
                             body = JObj [(''success'', JBool False),
                                          (''error'', JStr ''Invalid token'')]\<rparr>
                      else if instanceof_TokenExpiredError err then
                        Inl \<lparr>status = 401,
                             body = JObj [(''success'', JBool False),
                                          (''error'', JStr ''Token expired'')]\<rparr>
                      else
                        Inl \<lparr>status = 500,
                             body = JObj [(''success'', JBool False),
                                          (''error'', JStr ''Authentication failed'')]\<rparr>)
                 | Inr decoded \<Rightarrow>
                     (case findById (jp_userId decoded) users of
                        Inl err \<Rightarrow>
                          Inl \<lparr>status = 500,
                               body = JObj [(''success'', JBool False),
                                            (''error'', JStr ''Authentication failed'')]\<rparr>
                      | Inr None \<Rightarrow>
                          Inl \<lparr>status = 401,
                               body = JObj [(''success'', JBool False),
                                            (''error'', JStr ''User not found'')]\<rparr>
                      | Inr (Some u) \<Rightarrow>
                          Inr \<lparr>ru_id = u_id u, ru_firstName = u_firstName u,
                               ru_lastName = u_lastName u, ru_email = u_email u\<rparr>))))"

subsection \<open>Auth controller\<close>

record signup_body =
  sb_firstName :: "string option"
  sb_lastName :: "string option"
  sb_email :: "string option"
  sb_password :: "string option"
  sb_surgeryDate :: "string option"

record signin_body =
  si_email :: "string option"
  si_password :: "string option"

definition getFieldFromError :: "string \<Rightarrow> string" where
  "getFieldFromError err =
     (if includes_str err ''First name'' then ''firstName''
      else if includes_str err ''Last name'' then ''lastName''
      else if includes_str err ''Email'' then ''email''
      else if includes_str err ''Password'' then ''password''
      else ''general'')"

definition errorItem :: "string \<Rightarrow> string \<Rightarrow> json" where
  "errorItem m f = JObj [(''message'', JStr m), (''field'', JStr f)]"

definition validationFailed :: "validation_result \<Rightarrow> response" where
  "validationFailed validation =
     \<lparr>status = 400,
      body = JObj ([(''success'', JBool False), (''error'', JStr ''Validation failed'')]
                   @ (case errors validation of
                        None \<Rightarrow> []
                      | Some es \<Rightarrow>
                          [(''errors'', JArr (map (\<lambda>err. errorItem err (getFieldFromError err)) es))]))\<rparr>"

definition unexpected :: "string \<Rightarrow> response" where
  "unexpected err =
     \<lparr>status = 500,
      body = JObj [(''success'', JBool False), (''error'', JStr err),
                   (''errors'', JArr [errorItem ''An unexpected error occurred. Please try again.''
                                        ''general''])]\<rparr>"

definition signup :: "lib \<Rightarrow> env \<Rightarrow> signup_body \<Rightarrow> user list \<Rightarrow> response \<times> user list" where
  "signup l e rb users =
     (let surgeryDate = sb_surgeryDate rb;
          validation = validateRegistration
                         \<lparr>rd_firstName = sb_firstName rb, rd_lastName = sb_lastName rb,
                          rd_email = sb_email rb, rd_password = sb_password rb\<rparr>
      in if \<not> isValid validation then (validationFailed validation, users)
         else
           (case (case sanitizedData validation of
                    None \<Rightarrow> None
                  | Some sd \<Rightarrow>
                      (case (sd_firstName sd, sd_lastName sd) of
                         (Some fname, Some lname) \<Rightarrow>
                           Some \<lparr>rg_email = sd_email sd, rg_password = sd_password sd,
                                  rg_firstName = fname, rg_lastName = lname\<rparr>
                       | _ \<Rightarrow> None)) of
              Some data \<Rightarrow>
                (case register l e data users of
                   Inr (authResponse, users') \<Rightarrow>
                     (\<lparr>status = 201,
                       body = JObj
                         [(''success'', JBool True),
                          (''data'', JObj
                             [(''user'', JObj
                                 [(''id'', JStr (au_id (user authResponse))),
                                  (''firstName'', JStr (au_firstName (user authResponse))),
                                  (''lastName'', JStr (au_lastName (user authResponse))),
                                  (''email'', JStr (au_email (user authResponse))),
                                  (''surgeryDate'',
                                     (if truthy surgeryDate
                                      then (case surgeryDate of Some sd \<Rightarrow> JStr sd | None \<Rightarrow> JNull)
                                      else JNull)),
                                  (''recoveryDay'', JNum 0)]),
                              (''token'', JStr (token authResponse))]),
                          (''message'', JStr ''User created successfully'')]\<rparr>,
                      users')
                 | Inl err \<Rightarrow>
                     (if includes_str (message err) ''already exists'' then
                        (\<lparr>status = 409,
                          body = JObj [(''success'', JBool False),
                                       (''error'', JStr ''Registration failed''),
                                       (''errors'', JArr [errorItem ''Email already in use'' ''email''])]\<rparr>,
                         users)
                      else (unexpected ''Failed to create user'', users)))
            | _ \<Rightarrow> (unexpected ''Failed to create user'', users)))"

text \<open>The response of the error branch of \<open>signin\<close>, whatever \<open>Error\<close> was thrown.\<close>

definition authenticationFailed :: response where
  "authenticationFailed =
     \<lparr>status = 400,
      body = JObj [(''success'', JBool False), (''error'', JStr ''Authentication failed''),
                   (''errors'', JArr [errorItem ''Invalid email or password'' ''credentials''])]\<rparr>"

definition signin :: "lib \<Rightarrow> date \<Rightarrow> signin_body \<Rightarrow> user list \<Rightarrow> response" where
  "signin l t rb users =
     (let validation = validateLogin \<lparr>ld_email = si_email rb, ld_password = si_password rb\<rparr>
      in if \<not> isValid validation then validationFailed validation
         else
           (case sanitizedData validation of
              None \<Rightarrow> authenticationFailed
            | Some sd \<Rightarrow>
                (case login l t (sd_email sd) (sd_password sd) users of
                   Inr authResponse \<Rightarrow>
                     \<lparr>status = 200,
                      body = JObj
                        [(''success'', JBool True),
                         (''data'', JObj
                            [(''user'', JObj
                                [(''id'', JStr (au_id (user authResponse))),
                                 (''firstName'', JStr (au_firstName (user authResponse))),
                                 (''lastName'', JStr (au_lastName (user authResponse))),
                                 (''email'', JStr (au_email (user authResponse))),
                                 (''surgeryDate'', JNull),
                                 (''recoveryDay'', JNum 0)]),
                             (''token'', JStr (token authResponse))]),
                         (''message'', JStr ''User signed in successfully'')]\<rparr>
                 | Inl err \<Rightarrow> authenticationFailed)))"

definition userResponse :: "date \<Rightarrow> user \<Rightarrow> json" where
  "userResponse t u =
     JObj [(''id'', JStr (u_id u)),
           (''firstName'', JStr (u_firstName u)),
           (''lastName'', JStr (u_lastName u)),
           (''email'', JStr (u_email u)),
           (''surgeryDate'', (case u_surgeryDate u of None \<Rightarrow> JNull | Some d \<Rightarrow> JDate d)),
           (''recoveryDay'', JNum (calculateRecoveryDay t (u_surgeryDate u)))]"

definition unauthorized :: response where
  "unauthorized =
     \<lparr>status = 401,
      body = JObj [(''success'', JBool False), (''error'', JStr ''Unauthorized''),
                   (''errors'', JArr [errorItem ''Authentication token is required'' ''token''])]\<rparr>"

definition userNotFound :: "nat \<Rightarrow> response" where
  "userNotFound st =
     \<lparr>status = st,
      body = JObj [(''success'', JBool False), (''error'', JStr ''User not found''),
                   (''errors'', JArr [errorItem ''User account not found'' ''user''])]\<rparr>"

definition getProfile :: "date \<Rightarrow> req_user option \<Rightarrow> user list \<Rightarrow> response" where
  "getProfile t reqUser users =
     (case reqUser of
        None \<Rightarrow> unauthorized
      | Some ru \<Rightarrow>
          (if ru_id ru = [] then unauthorized
           else (case getUserById (ru_id ru) users of
                   Inl err \<Rightarrow> unexpected ''Failed to get user profile''
                 | Inr None \<Rightarrow> userNotFound 401
                 | Inr (Some u) \<Rightarrow>
                     \<lparr>status = 200,
                      body = JObj [(''success'', JBool True),
                                   (''data'', JObj [(''user'', userResponse t u)]),
                                   (''message'', JStr ''User profile retrieved successfully'')]\<rparr>)))"

definition surgeryDateInvalid :: "string \<Rightarrow> response" where
  "surgeryDateInvalid m =
     \<lparr>status = 400,
      body = JObj [(''success'', JBool False), (''error'', JStr ''Validation failed''),
                   (''errors'', JArr [errorItem m ''surgeryDate''])]\<rparr>"

definition updateSurgeryDate ::
  "lib \<Rightarrow> env \<Rightarrow> req_user option \<Rightarrow> string option \<Rightarrow> user list \<Rightarrow> response \<times> user list" where
  "updateSurgeryDate l e reqUser surgeryDate users =
     (case reqUser of
        None \<Rightarrow> (unauthorized, users)
      | Some ru \<Rightarrow>
          (if ru_id ru = [] then (unauthorized, users)
           else
             (case surgeryDate of
                None \<Rightarrow> (surgeryDateInvalid ''Surgery date is required'', users)
              | Some sd \<Rightarrow>
                  (if sd = [] then (surgeryDateInvalid ''Surgery date is required'', users)
                   else
                     (case Date_parse l sd of
                        None \<Rightarrow> (surgeryDateInvalid ''Invalid date format'', users)
                      | Some d \<Rightarrow>
                          (let today = e_now e in
                           if d > today
                           then (surgeryDateInvalid ''Surgery date cannot be in the future'', users)
                           else
                             (case updateUser l e (ru_id ru)
                                     \<lparr>ud_firstName = None, ud_lastName = None, ud_email = None,
                                      ud_isActive = None, ud_surgeryDate = Some d,
                                      ud_preferences = None\<rparr> users of
                                Inl err \<Rightarrow> (unexpected ''Failed to update surgery date'', users)
                              | Inr (None, users') \<Rightarrow> (userNotFound 404, users')
                              | Inr (Some u, users') \<Rightarrow>
                                  (\<lparr>status = 200,
                                    body = JObj
                                      [(''success'', JBool True),
                                       (''message'', JStr ''Surgery date updated successfully''),
                                       (''data'', JObj [(''user'', userResponse (e_now e) u)])]\<rparr>,
                                   users'))))))))"

definition passwordInvalid :: "string \<Rightarrow> string \<Rightarrow> response" where
  "passwordInvalid m f =
     \<lparr>status = 400,
      body = JObj [(''success'', JBool False), (''error'', JStr ''Validation failed''),
                   (''errors'', JArr [errorItem m f])]\<rparr>"

text \<open>The handler \<open>changePassword\<close> of the auth controller.\<close>

definition changePassword_handler ::
  "lib \<Rightarrow> env \<Rightarrow> req_user option \<Rightarrow> string option \<Rightarrow> string option \<Rightarrow> user list
   \<Rightarrow> response \<times> user list" where
  "changePassword_handler l e reqUser currentPassword newPassword users =
     (case reqUser of
        None \<Rightarrow> (unauthorized, users)
      | Some ru \<Rightarrow>
          (if ru_id ru = [] then (unauthorized, users)
           else if \<not> truthy currentPassword \<or> \<not> truthy newPassword then
             (passwordInvalid ''Current password and new password are required'' ''password'', users)
           else
             (case (currentPassword, newPassword) of
                (Some cur, Some new) \<Rightarrow>
                  (if length new < 8 then
                     (passwordInvalid ''New password must be at least 8 characters long''
                        ''newPassword'', users)
                   else if cur = new then
                     (passwordInvalid ''New password must be different from current password''
                        ''newPassword'', users)
                   else
                     (case changePassword l e (ru_id ru) cur new users of
                        Inr users' \<Rightarrow>
                          (\<lparr>status = 200,
                            body = JObj [(''success'', JBool True),
                                         (''message'', JStr ''Password changed successfully'')]\<rparr>,
                           users')
                      | Inl err \<Rightarrow>
                          (\<lparr>status = 400,
                            body = JObj [(''success'', JBool False),
                                         (''error'', JStr ''Password change failed''),
                                         (''errors'', JArr [errorItem (message err) ''password''])]\<rparr>,
                           users)))
              | _ \<Rightarrow> (unexpected ''Failed to change password'', users))))"

section \<open>Stored records of the two keyed stores\<close>

text \<open>What a service hands to its controller: \<open>{ success, data?, message }\<close>.\<close>

datatype 'a payload = One 'a | Many "'a list"

record 'a service_response =
  sr_success :: bool
  sr_data :: "'a payload option"
  sr_message :: string

subsection \<open>Brochure progress\<close>

record brochure_progress =
  bp_id :: objectId
  bp_userId :: string
  bp_sectionId :: string
  bp_itemId :: string
  bp_completed :: bool
  bp_notes :: string
  bp_createdAt :: date
  bp_updatedAt :: date

text \<open>
  \<open>BrochureProgressService.updateProgress\<close>:
  \<open>findOneAndUpdate({ userId, sectionId, itemId }, { completed, notes, updatedAt }, { upsert: true, new: true })\<close>.
  The update is applied to the first document that has the key; without one a document
  is inserted from the key, the update and the defaults of the schema. Mongoose 8
  removes a key whose value is \<open>undefined\<close> from an update, so a call without
  \<open>notes\<close> does not touch the stored notes.
\<close>

definition updateProgress ::
  "env \<Rightarrow> string \<Rightarrow> string \<Rightarrow> string \<Rightarrow> bool \<Rightarrow> string option \<Rightarrow> brochure_progress list
   \<Rightarrow> brochure_progress service_response \<times> brochure_progress list" where
  "updateProgress e userId sectionId itemId completed notes coll =
     (let flt = (\<lambda>r. bp_userId r = userId \<and> bp_sectionId r = sectionId \<and> bp_itemId r = itemId);
          upd = (\<lambda>r. r\<lparr>bp_completed := completed,
                        bp_notes := (case notes of None \<Rightarrow> bp_notes r | Some n \<Rightarrow> n),
                        bp_updatedAt := e_now e\<rparr>)
      in case find flt coll of
           Some r \<Rightarrow>
             (\<lparr>sr_success = True, sr_data = Some (One (upd r)),
               sr_message = ''Progress updated successfully''\<rparr>,
              updateFirst flt upd coll)
         | None \<Rightarrow>
             (let r = \<lparr>bp_id = e_newId e, bp_userId = userId, bp_sectionId = sectionId,
                       bp_itemId = itemId, bp_completed = completed,
                       bp_notes = (case notes of None \<Rightarrow> [] | Some n \<Rightarrow> n),
                       bp_createdAt = e_now e, bp_updatedAt = e_now e\<rparr>
              in (\<lparr>sr_success = True, sr_data = Some (One r),
                    sr_message = ''Progress updated successfully''\<rparr>,
                  coll @ [r])))"

definition getUserProgress ::
  "string \<Rightarrow> brochure_progress list \<Rightarrow> brochure_progress service_response" where
  "getUserProgress userId coll =
     \<lparr>sr_success = True, sr_data = Some (Many (filter (\<lambda>r. bp_userId r = userId) coll)),
      sr_message = ''Progress retrieved successfully''\<rparr>"

definition resetProgress ::
  "string \<Rightarrow> brochure_progress list
   \<Rightarrow> brochure_progress service_response \<times> brochure_progress list" where
  "resetProgress userId coll =
     (\<lparr>sr_success = True, sr_data = None, sr_message = ''Progress reset successfully''\<rparr>,
      filter (\<lambda>r. bp_userId r \<noteq> userId) coll)"

text \<open>The key of a progress record, and the invariant of the unique compound index.\<close>

definition progressKey :: "brochure_progress \<Rightarrow> string \<times> string \<times> string" where
  "progressKey r = (bp_userId r, bp_sectionId r, bp_itemId r)"

definition uniqueKeys :: "brochure_progress list \<Rightarrow> bool" where
  "uniqueKeys coll = distinct (map progressKey coll)"

subsection \<open>Symptom entries\<close>

record symptom_entry =
  se_id :: objectId
  se_userId :: string
  se_date :: string
  se_painLevel :: int
  se_location :: string
  se_description :: string
  se_medications :: string
  se_timestamp :: date
  se_createdAt :: date
  se_updatedAt :: date

text \<open>
  \<open>SymptomEntryRequest\<close> and \<open>Partial<SymptomEntryRequest>\<close>; \<open>None\<close> is a key that is
  absent or \<open>undefined\<close>. \<open>painLevel\<close> ranges over the integers.
\<close>

record symptom_entry_request =
  rq_date :: "string option"
  rq_painLevel :: "int option"
  rq_location :: "string option"
  rq_description :: "string option"
  rq_medications :: "string option"

text \<open>The validators of the schema that run on \<open>save\<close>.\<close>

definition validateEntry :: "string \<Rightarrow> symptom_entry_request \<Rightarrow> string list" where
  "validateEntry userId entryData =
     (if userId = [] then [''userId: Path userId is required.''] else [])
     @ (if truthy (rq_date entryData) then [] else [''date: Path date is required.''])
     @ (case rq_painLevel entryData of
          None \<Rightarrow> [''painLevel: Path painLevel is required.'']
        | Some p \<Rightarrow>
            (if p < 0 then [''painLevel: Path painLevel is less than minimum allowed value (0).'']
             else if p > 10
             then [''painLevel: Path painLevel is more than maximum allowed value (10).'']
             else []))"

definition createEntry ::
  "env \<Rightarrow> string \<Rightarrow> symptom_entry_request \<Rightarrow> symptom_entry list
   \<Rightarrow> symptom_entry service_response \<times> symptom_entry list" where
  "createEntry e userId entryData coll =
     (case (validateEntry userId entryData, rq_date entryData, rq_painLevel entryData) of
        ([], Some d, Some p) \<Rightarrow>
          (let savedEntry =
                 \<lparr>se_id = e_newId e, se_userId = userId, se_date = d, se_painLevel = p,
                  se_location = (case rq_location entryData of None \<Rightarrow> [] | Some v \<Rightarrow> v),
                  se_description = (case rq_description entryData of None \<Rightarrow> [] | Some v \<Rightarrow> v),
                  se_medications = (case rq_medications entryData of None \<Rightarrow> [] | Some v \<Rightarrow> v),
                  se_timestamp = e_now e, se_createdAt = e_now e, se_updatedAt = e_now e\<rparr>
           in (\<lparr>sr_success = True, sr_data = Some (One savedEntry),
                 sr_message = ''Symptom entry created successfully''\<rparr>,
               coll @ [savedEntry]))
      | _ \<Rightarrow>
          (\<lparr>sr_success = False, sr_data = None,
            sr_message = ''Failed to create symptom entry''\<rparr>,
           coll))"

text \<open>
  \<open>find({ userId }).sort({ timestamp: -1 })\<close>; entries with the same timestamp are
  kept in the order of the collection.
\<close>

definition getUserEntries ::
  "string \<Rightarrow> symptom_entry list \<Rightarrow> symptom_entry service_response" where
  "getUserEntries userId coll =
     \<lparr>sr_success = True,
      sr_data = Some (Many (sort_key (\<lambda>x. - se_timestamp x)
                              (filter (\<lambda>x. se_userId x = userId) coll))),
      sr_message = ''Symptom entries retrieved successfully''\<rparr>"

definition applyUpdate :: "symptom_entry_request \<Rightarrow> date \<Rightarrow> symptom_entry \<Rightarrow> symptom_entry" where
  "applyUpdate upd t x =
     x\<lparr>se_date := (case rq_date upd of None \<Rightarrow> se_date x | Some v \<Rightarrow> v),
       se_painLevel := (case rq_painLevel upd of None \<Rightarrow> se_painLevel x | Some v \<Rightarrow> v),
       se_location := (case rq_location upd of None \<Rightarrow> se_location x | Some v \<Rightarrow> v),
       se_description := (case rq_description upd of None \<Rightarrow> se_description x | Some v \<Rightarrow> v),
       se_medications := (case rq_medications upd of None \<Rightarrow> se_medications x | Some v \<Rightarrow> v),
       se_updatedAt := t\<rparr>"

text \<open>
  \<open>findOneAndUpdate({ _id: entryId, userId }, updateData, { new: true })\<close>; the cast of
  \<open>entryId\<close> throws into the \<open>catch\<close> of the service.
\<close>

definition updateEntry ::
  "env \<Rightarrow> string \<Rightarrow> string \<Rightarrow> symptom_entry_request \<Rightarrow> symptom_entry list
   \<Rightarrow> symptom_entry service_response \<times> symptom_entry list" where
  "updateEntry e userId entryId updateData coll =
     (case castObjectId entryId of
        Inl err \<Rightarrow>
          (\<lparr>sr_success = False, sr_data = None,
            sr_message = ''Failed to update symptom entry''\<rparr>, coll)
      | Inr oid \<Rightarrow>
          (let flt = (\<lambda>x. se_id x = oid \<and> se_userId x = userId)
           in case find flt coll of
                None \<Rightarrow>
                  (\<lparr>sr_success = False, sr_data = None,
                    sr_message = ''Symptom entry not found''\<rparr>, coll)
              | Some x \<Rightarrow>
                  (\<lparr>sr_success = True, sr_data = Some (One (applyUpdate updateData (e_now e) x)),
                    sr_message = ''Symptom entry updated successfully''\<rparr>,
                   updateFirst flt (applyUpdate updateData (e_now e)) coll)))"

text \<open>\<open>findOneAndDelete({ _id: entryId, userId })\<close>\<close>

definition deleteEntry ::
  "string \<Rightarrow> string \<Rightarrow> symptom_entry list
   \<Rightarrow> symptom_entry service_response \<times> symptom_entry list" where
  "deleteEntry userId entryId coll =
     (case castObjectId entryId of
        Inl err \<Rightarrow>
          (\<lparr>sr_success = False, sr_data = None,
            sr_message = ''Failed to delete symptom entry''\<rparr>, coll)
      | Inr oid \<Rightarrow>
          (let flt = (\<lambda>x. se_id x = oid \<and> se_userId x = userId)
           in case find flt coll of
                None \<Rightarrow>
                  (\<lparr>sr_success = False, sr_data = None,
                    sr_message = ''Symptom entry not found''\<rparr>, coll)
              | Some deletedEntry \<Rightarrow>
                  (\<lparr>sr_success = True, sr_data = None,
                    sr_message = ''Symptom entry deleted successfully''\<rparr>,
                   deleteFirst flt coll)))"

text \<open>\<open>deleteMany({ userId })\<close>\<close>

definition clearUserEntries ::
  "string \<Rightarrow> symptom_entry list
   \<Rightarrow> symptom_entry service_response \<times> symptom_entry list" where
  "clearUserEntries userId coll =
     (\<lparr>sr_success = True, sr_data = None,
       sr_message = ''All symptom entries cleared successfully''\<rparr>,
      filter (\<lambda>x. se_userId x \<noteq> userId) coll)"

subsection \<open>Symptom entry controller\<close>

record symptom_body =
  b_date :: "string option"
  b_painLevel :: "int option"
  b_location :: "string option"
  b_description :: "string option"
  b_medications :: "string option"

definition entryJson :: "symptom_entry \<Rightarrow> json" where
  "entryJson x =
     JObj [(''_id'', JStr (se_id x)), (''userId'', JStr (se_userId x)),
           (''date'', JStr (se_date x)), (''painLevel'', JNum (se_painLevel x)),
           (''location'', JStr (se_location x)), (''description'', JStr (se_description x)),
           (''medications'', JStr (se_medications x)), (''timestamp'', JDate (se_timestamp x)),
           (''createdAt'', JDate (se_createdAt x)), (''updatedAt'', JDate (se_updatedAt x)),
           (''__v'', JNum 0)]"

text \<open>
  \<open>{ success, data: result.data, message }\<close>; a key whose value is \<open>undefined\<close> is not
  serialised.
\<close>

definition withData :: "symptom_entry service_response \<Rightarrow> json" where
  "withData result =
     JObj ([(''success'', JBool True)]
           @ (case sr_data result of
                None \<Rightarrow> []
              | Some (One x) \<Rightarrow> [(''data'', entryJson x)]
              | Some (Many xs) \<Rightarrow> [(''data'', JArr (map entryJson xs))])
           @ [(''message'', JStr (sr_message result))])"

definition notAuthenticated :: response where
  "notAuthenticated =
     \<lparr>status = 401,
      body = JObj [(''success'', JBool False), (''message'', JStr ''User not authenticated'')]\<rparr>"

definition failure :: "nat \<Rightarrow> string \<Rightarrow> response" where
  "failure st m = \<lparr>status = st, body = JObj [(''success'', JBool False), (''message'', JStr m)]\<rparr>"

definition orEmpty :: "string option \<Rightarrow> string" where
  "orEmpty v = (case v of None \<Rightarrow> [] | Some s \<Rightarrow> s)"

definition createSymptomEntry ::
  "env \<Rightarrow> req_user option \<Rightarrow> symptom_body \<Rightarrow> symptom_entry list
   \<Rightarrow> response \<times> symptom_entry list" where
  "createSymptomEntry e reqUser rb coll =
     (case reqUser of
        None \<Rightarrow> (notAuthenticated, coll)
      | Some ru \<Rightarrow>
          (if ru_id ru = [] then (notAuthenticated, coll)
           else
             (let entryData = \<lparr>rq_date = b_date rb, rq_painLevel = b_painLevel rb,
                               rq_location = Some (orEmpty (b_location rb)),
                               rq_description = Some (orEmpty (b_description rb)),
                               rq_medications = Some (orEmpty (b_medications rb))\<rparr>;
                  (result, coll') = createEntry e (ru_id ru) entryData coll
              in if sr_success result then (\<lparr>status = 201, body = withData result\<rparr>, coll')
                 else (failure 400 (sr_message result), coll'))))"

definition getUserSymptomEntries ::
  "req_user option \<Rightarrow> symptom_entry list \<Rightarrow> response" where
  "getUserSymptomEntries reqUser coll =
     (case reqUser of
        None \<Rightarrow> notAuthenticated
      | Some ru \<Rightarrow>
          (if ru_id ru = [] then notAuthenticated
           else
             (let result = getUserEntries (ru_id ru) coll
              in if sr_success result then \<lparr>status = 200, body = withData result\<rparr>
                 else failure 400 (sr_message result))))"

definition updateSymptomEntry ::
  "env \<Rightarrow> req_user option \<Rightarrow> string \<Rightarrow> symptom_body \<Rightarrow> symptom_entry list
   \<Rightarrow> response \<times> symptom_entry list" where
  "updateSymptomEntry e reqUser entryId rb coll =
     (case reqUser of
        None \<Rightarrow> (notAuthenticated, coll)
      | Some ru \<Rightarrow>
          (if ru_id ru = [] then (notAuthenticated, coll)
           else
             (let updateData = \<lparr>rq_date = (if truthy (b_date rb) then b_date rb else None),
                                rq_painLevel = b_painLevel rb,
                                rq_location = b_location rb,
                                rq_description = b_description rb,
                                rq_medications = b_medications rb\<rparr>;
                  (result, coll') = updateEntry e (ru_id ru) entryId updateData coll
              in if sr_success result then (\<lparr>status = 200, body = withData result\<rparr>, coll')
                 else (failure 404 (sr_message result), coll'))))"

definition deleteSymptomEntry ::
  "req_user option \<Rightarrow> string \<Rightarrow> symptom_entry list \<Rightarrow> response \<times> symptom_entry list" where
  "deleteSymptomEntry reqUser entryId coll =
     (case reqUser of
        None \<Rightarrow> (notAuthenticated, coll)
      | Some ru \<Rightarrow>
          (if ru_id ru = [] then (notAuthenticated, coll)
           else
             (let (result, coll') = deleteEntry (ru_id ru) entryId coll
              in if sr_success result
                 then (\<lparr>status = 200,
                        body = JObj [(''success'', JBool True),
                                     (''message'', JStr (sr_message result))]\<rparr>, coll')
                 else (failure 404 (sr_message result), coll'))))"

definition clearUserSymptomEntries ::
  "req_user option \<Rightarrow> symptom_entry list \<Rightarrow> response \<times> symptom_entry list" where
  "clearUserSymptomEntries reqUser coll =
     (case reqUser of
        None \<Rightarrow> (notAuthenticated, coll)
      | Some ru \<Rightarrow>
          (if ru_id ru = [] then (notAuthenticated, coll)
           else
             (let (result, coll') = clearUserEntries (ru_id ru) coll
              in if sr_success result
                 then (\<lparr>status = 200,
                        body = JObj [(''success'', JBool True),
                                     (''message'', JStr (sr_message result))]\<rparr>, coll')
                 else (failure 400 (sr_message result), coll'))))"

subsection \<open>Symptom entry routes\<close>

datatype http_method = GET | POST | PUT | DELETE | PATCH

datatype handler =
    CreateSymptomEntry
  | GetUserSymptomEntries
  | UpdateSymptomEntry
  | DeleteSymptomEntry
  | ClearUserSymptomEntries

text \<open>The three shapes of route path in the file: \<open>'/'\<close>, \<open>'/:name'\<close> and \<open>'/literal'\<close>.\<close>

datatype route_path = Root | Param string | Literal string

text \<open>
  The routes in the order in which the file registers them. Express tries them in this
  order and runs the handler of the first whose method and path match; none of the
  handlers calls \<open>next\<close>.
\<close>

definition routes :: "(http_method \<times> route_path \<times> handler) list" where
  "routes =
     [(POST, Root, CreateSymptomEntry),
      (GET, Root, GetUserSymptomEntries),
      (PUT, Param ''id'', UpdateSymptomEntry),
      (DELETE, Param ''id'', DeleteSymptomEntry),
      (DELETE, Literal ''clear'', ClearUserSymptomEntries)]"

text \<open>
  \<open>decodeURIComponent\<close>. An escape below 128 is its character; the escapes of a two
  byte UTF-8 sequence with lead byte C2 or C3 are one code unit from 128 to 255; a
  malformed escape or sequence is a \<open>URIError\<close>, here \<open>None\<close>. A well-formed sequence
  for a code point above 255 has no string in this model and is \<open>None\<close> as well.
\<close>

definition hexVal :: "char \<Rightarrow> int" where
  "hexVal c =
     (if isDigit c then of_char c - 48
      else if 97 \<le> code c \<and> code c \<le> 102 then of_char c - 87
      else of_char c - 55)"

fun decodeURIComponent :: "string \<Rightarrow> string option" where
  "decodeURIComponent [] = Some []"
| "decodeURIComponent (c # cs) =
     (if c \<noteq> CHR ''%'' then map_option ((#) c) (decodeURIComponent cs)
      else
        (case cs of
           h1 # h2 # rest \<Rightarrow>
             (if \<not> (isHex h1 \<and> isHex h2) then None
              else if 16 * hexVal h1 + hexVal h2 < 128
              then map_option ((#) (char_of (16 * hexVal h1 + hexVal h2)))
                     (decodeURIComponent rest)
              else if 16 * hexVal h1 + hexVal h2 = 194 \<or> 16 * hexVal h1 + hexVal h2 = 195
              then
                (case rest of
                   p # k1 # k2 # rest' \<Rightarrow>
                     (if p = CHR ''%'' \<and> isHex k1 \<and> isHex k2
                         \<and> 128 \<le> 16 * hexVal k1 + hexVal k2
                         \<and> 16 * hexVal k1 + hexVal k2 \<le> 191
                      then map_option
                             ((#) (char_of ((16 * hexVal h1 + hexVal h2 - 192) * 64
                                            + (16 * hexVal k1 + hexVal k2 - 128))))
                             (decodeURIComponent rest')
                      else None)
                 | _ \<Rightarrow> None)
              else None)
         | _ \<Rightarrow> None))"

text \<open>
  What \<open>layer.match(path)\<close> gives: no match, a match with \<open>req.params\<close>, or a parameter
  that fails to decode.
\<close>

datatype match_result = NoMatch | DecodeFailed | Match "(string \<times> string) list"

text \<open>
  Matching as Express 4 compiles a path: not case sensitive, one trailing slash
  allowed, a parameter is one non-empty segment of the raw path, handed on decoded.
\<close>

fun matchRoute :: "route_path \<Rightarrow> string \<Rightarrow> match_result" where
  "matchRoute Root p = (if p = [] \<or> p = ''/'' then Match [] else NoMatch)"
| "matchRoute (Param name) p =
     (case p of
        [] \<Rightarrow> NoMatch
      | c # cs \<Rightarrow>
          (if c \<noteq> CHR ''/'' then NoMatch
           else (let seg = (if cs \<noteq> [] \<and> last cs = CHR ''/'' then butlast cs else cs)
                 in if seg \<noteq> [] \<and> CHR ''/'' \<notin> set seg
                    then (case decodeURIComponent seg of
                            None \<Rightarrow> DecodeFailed
                          | Some val \<Rightarrow> Match [(name, val)])
                    else NoMatch)))"
| "matchRoute (Literal lit) p =
     (if toLowerCase p = ''/'' @ toLowerCase lit \<or> toLowerCase p = ''/'' @ toLowerCase lit @ ''/''
      then Match [] else NoMatch)"

text \<open>
  The loop of the router over its routes: the path is matched first, then the method.
  A parameter that fails to decode ends the search, since no later route matches
  while that error is pending, and the request is answered with 400.
\<close>

datatype dispatch_result = Handle handler "(string \<times> string) list" | BadRequest | NotFound

fun dispatch ::
  "(http_method \<times> route_path \<times> handler) list \<Rightarrow> http_method \<Rightarrow> string \<Rightarrow> dispatch_result" where
  "dispatch [] m p = NotFound"
| "dispatch ((m', rp, h) # rs) m p =
     (case matchRoute rp p of
        NoMatch \<Rightarrow> dispatch rs m p
      | DecodeFailed \<Rightarrow> BadRequest
      | Match params \<Rightarrow> (if m' = m then Handle h params else dispatch rs m p))"

record tracker_request =
  tr_method :: http_method
  tr_path :: string       \<comment> \<open>the path below the mount point \<open>/api/v1/tracker\<close>\<close>
  tr_authorization :: "string option"
  tr_body :: symptom_body

record db =
  db_users :: "user list"
  db_entries :: "symptom_entry list"
  db_progress :: "brochure_progress list"

text \<open>
  The router mounted at \<open>/api/v1/tracker\<close>: \<open>router.use(authenticateToken)\<close>, then the
  routes. A request that no route takes leaves the router and gets the 404 of Express,
  one with a parameter that fails to decode its 400; neither body is JSON.
\<close>

definition symptomEntryRoutes :: "lib \<Rightarrow> env \<Rightarrow> tracker_request \<Rightarrow> db \<Rightarrow> response \<times> db" where
  "symptomEntryRoutes l e req d =
     (case authenticateToken l (e_now e) (tr_authorization req) (db_users d) of
        Inl res \<Rightarrow> (res, d)
      | Inr ru \<Rightarrow>
          (case dispatch routes (tr_method req) (tr_path req) of
             NotFound \<Rightarrow> (\<lparr>status = 404, body = JNull\<rparr>, d)
           | BadRequest \<Rightarrow> (\<lparr>status = 400, body = JNull\<rparr>, d)
           | Handle h params \<Rightarrow>
               (let pid = (case map_of params ''id'' of None \<Rightarrow> [] | Some v \<Rightarrow> v);
                    (res, coll') =
                      (case h of
                         CreateSymptomEntry \<Rightarrow>
                           createSymptomEntry e (Some ru) (tr_body req) (db_entries d)
                       | GetUserSymptomEntries \<Rightarrow>
                           (getUserSymptomEntries (Some ru) (db_entries d), db_entries d)
                       | UpdateSymptomEntry \<Rightarrow>
                           updateSymptomEntry e (Some ru) pid (tr_body req) (db_entries d)
                       | DeleteSymptomEntry \<Rightarrow> deleteSymptomEntry (Some ru) pid (db_entries d)
                       | ClearUserSymptomEntries \<Rightarrow>
                           clearUserSymptomEntries (Some ru) (db_entries d))
                in (res, d\<lparr>db_entries := coll'\<rparr>))))"

section \<open>Concrete instances\<close>

text \<open>
  A stand-in for the libraries, used only to run the model on concrete requests: the
  hash of a password is a prefix, the salt and the reversed password; a token is the
  user id behind a tag. The theorems below hold for every library.
\<close>

definition stubLib :: lib where
  "stubLib =
     \<lparr>hashSync = (\<lambda>slt p. ''$2a$10$'' @ slt @ rev p),
      compareSync = (\<lambda>p h. take 7 h = ''$2a$10$'' \<and> drop 29 h = rev p),
      jwt_sign = (\<lambda>payload t. ''jwt.'' @ jp_userId payload),
      jwt_verify = (\<lambda>tok t. if take 4 tok = ''jwt.''
                              then Inr \<lparr>jp_userId = drop 4 tok, jp_email = []\<rparr>
                              else Inl JsonWebTokenError),
      Date_parse = (\<lambda>s. if s = ''2024-01-15'' then Some 1705276800000 else None)\<rparr>"

definition sarah :: user where
  "sarah =
     \<lparr>u_id = ''65a4d2000000000000000001'', u_firstName = ''Sarah'', u_lastName = ''Johnson'',
      u_email = ''sarah@x.com'', u_password = Some ''$2a$10$saltsaltsaltsaltsaltsadr0wssaP'',
      u_surgeryDate = None, u_recoveryDay = 0, u_isActive = True, u_preferences = JObj [],
      u_createdAt = 1705276800000, u_updatedAt = 1705276800000\<rparr>"

definition bob :: req_user where
  "bob = \<lparr>ru_id = ''65a4d2000000000000000009'', ru_firstName = ''Bob'', ru_lastName = ''Stone'',
          ru_email = ''bob@x.com''\<rparr>"

definition entry1 :: symptom_entry where
  "entry1 =
     \<lparr>se_id = ''65a4d2000000000000000002'', se_userId = ''65a4d2000000000000000001'',
      se_date = ''2024-01-15'', se_painLevel = 5, se_location = [], se_description = [],
      se_medications = [], se_timestamp = 1705320000000, se_createdAt = 1705320000000,
      se_updatedAt = 1705320000000\<rparr>"

definition env1 :: env where
  "env1 = \<lparr>e_now = 1705320000000, e_newId = ''65a4d2000000000000000003'',
           e_salt = ''saltsaltsaltsaltsaltsa''\<rparr>"

definition env2 :: env where
  "env2 = \<lparr>e_now = 1705323600000, e_newId = ''65a4d2000000000000000004'',
           e_salt = ''pepperpepperpepperpepp''\<rparr>"

definition env0 :: env where
  "env0 = \<lparr>e_now = 1705276800000, e_newId = ''65a4d2000000000000000001'',
           e_salt = ''saltsaltsaltsaltsaltsa''\<rparr>"

definition sarahSignup :: signup_body where
  "sarahSignup = \<lparr>sb_firstName = Some ''Sarah'', sb_lastName = Some ''Johnson'',
                  sb_email = Some ''sarah@x.com'', sb_password = Some ''Passw0rd'',
                  sb_surgeryDate = Some ''2024-01-10''\<rparr>"

definition sarahAgain :: signup_body where
  "sarahAgain = \<lparr>sb_firstName = Some ''Sara'', sb_lastName = Some ''Jones'',
                 sb_email = Some '' Sarah@X.COM '', sb_password = Some ''Secret123'',
                 sb_surgeryDate = None\<rparr>"

definition sarahShort :: signup_body where
  "sarahShort = \<lparr>sb_firstName = Some ''Sarah'', sb_lastName = Some ''Johnson'',
                 sb_email = Some ''Sarah@X.com'', sb_password = Some ''short'',
                 sb_surgeryDate = None\<rparr>"

definition hashSignin :: signin_body where
  "hashSignin = \<lparr>si_email = Some ''sarah@x.com'',
                 si_password = Some ''$2a$10$saltsaltsaltsaltsaltsadr0wssaP''\<rparr>"

definition sarahSignin :: signin_body where
  "sarahSignin = \<lparr>si_email = Some ''sarah@x.com'', si_password = Some ''Passw0rd''\<rparr>"



definition sarahReq :: req_user where
  "sarahReq = \<lparr>ru_id = ''65a4d2000000000000000001'', ru_firstName = ''Sarah'',
               ru_lastName = ''Johnson'', ru_email = ''sarah@x.com''\<rparr>"

definition emptyBody :: symptom_body where
  "emptyBody = \<lparr>b_date = None, b_painLevel = None, b_location = None, b_description = None,
                b_medications = None\<rparr>"

definition painBody :: "int \<Rightarrow> symptom_body" where
  "painBody p = \<lparr>b_date = Some ''2024-01-15'', b_painLevel = Some p, b_location = None,
                 b_description = None, b_medications = None\<rparr>"

definition sarahToken :: string where
  "sarahToken = ''Bearer jwt.65a4d2000000000000000001''"

definition db1 :: db where
  "db1 = \<lparr>db_users = [sarah], db_entries = [entry1], db_progress = []\<rparr>"

section \<open>Properties\<close>

subsection \<open>Recovery day\<close>

lemma int_div_eq_bounds:
  fixes a m q :: int
  assumes m: "0 < m"
  shows "(a div m = q) \<longleftrightarrow> (q * m \<le> a \<and> a < (q + 1) * m)"
proof
  assume e: "a div m = q"
  have d: "a = m * (a div m) + a mod m" by simp
  have "0 \<le> a mod m" "a mod m < m" using m by simp_all
  with d e show "q * m \<le> a \<and> a < (q + 1) * m"
    by (simp add: algebra_simps)
next
  assume b: "q * m \<le> a \<and> a < (q + 1) * m"
  have "a = m * q + (a - m * q)" by simp
  moreover have "0 \<le> a - m * q" using b by (simp add: algebra_simps)
  moreover have "a - m * q < m" using b by (simp add: algebra_simps)
  ultimately show "a div m = q" by (rule int_div_pos_eq)
qed

lemma ceil_days_eq_iff:
  fixes sd now n :: int
  shows "(- ((sd - now) div 86400000) = n)
         \<longleftrightarrow> ((n - 1) * 86400000 < now - sd \<and> now - sd \<le> n * 86400000)"
proof -
  have "(- ((sd - now) div 86400000) = n) \<longleftrightarrow> ((sd - now) div 86400000 = - n)" by auto
  also have "\<dots> \<longleftrightarrow> ((- n) * 86400000 \<le> sd - now \<and> sd - now < (- n + 1) * 86400000)"
    by (rule int_div_eq_bounds) simp
  also have "\<dots> \<longleftrightarrow> ((n - 1) * 86400000 < now - sd \<and> now - sd \<le> n * 86400000)"
    by (simp add: algebra_simps) linarith
  finally show ?thesis .
qed

lemma ceil_days_zero_iff:
  fixes sd now :: int
  shows "(max 0 (- ((sd - now) div 86400000)) = 0) \<longleftrightarrow> now \<le> sd"
proof -
  have "(max 0 (- ((sd - now) div 86400000)) = 0) \<longleftrightarrow> 0 \<le> (sd - now) div 86400000"
    by (simp add: max_def)
  also have "\<dots> \<longleftrightarrow> 0 \<le> sd - now"
    by (simp add: pos_imp_zdiv_nonneg_iff)
  finally show ?thesis by simp
qed

lemma calculateRecoveryDay_div:
  "calculateRecoveryDay now (Some sd) = max 0 (- ((sd - now) div 86400000))"
proof -
  have "\<lceil>real_of_int (now - sd) / real_of_int 86400000\<rceil> = - (- (now - sd) div 86400000)"
    by (rule ceiling_divide_eq_div)
  then show ?thesis
    by (simp add: calculateRecoveryDay_def Let_def)
qed

text \<open>
  Claim C2, as stated, read on calendar dates: a surgery date of today gives 0 and one
  of yesterday gives 1. On 2024-01-15 at noon UTC (1705320000000) a surgery date of
  2024-01-15T00:00Z (1705276800000) gives 1, and on 2024-01-16 at noon one of the
  day before gives 2.
\<close>

theorem calculateRecoveryDay_calendar_counterexample:
  "utcDay 1705276800000 = utcDay 1705320000000
   \<and> calculateRecoveryDay 1705320000000 (Some 1705276800000) = 1
   \<and> utcDay 1705276800000 + 1 = utcDay 1705406400000
   \<and> calculateRecoveryDay 1705406400000 (Some 1705276800000) = 2"
  by (simp add: calculateRecoveryDay_div utcDay_def)

text \<open>
  Claim C2, amended: the recovery day read at the instant \<open>now\<close> is
  max(0, ceil((now - surgeryDate) / 86400000)) on millisecond instants, and 0 without a
  surgery date. It is 0 exactly when the surgery instant is not before \<open>now\<close>, and it
  is \<open>n \<ge> 1\<close> exactly when \<open>now - surgeryDate\<close> lies in the half-open interval
  from \<open>n - 1\<close> days (excluded) to \<open>n\<close> days (included).
\<close>

theorem calculateRecoveryDay_instants:
  "calculateRecoveryDay now None = 0
   \<and> calculateRecoveryDay now (Some sd) = max 0 \<lceil>real_of_int (now - sd) / 86400000\<rceil>
   \<and> (calculateRecoveryDay now (Some sd) = 0 \<longleftrightarrow> now \<le> sd)
   \<and> (\<forall>n. 1 \<le> n \<longrightarrow>
         (calculateRecoveryDay now (Some sd) = n
          \<longleftrightarrow> (n - 1) * 86400000 < now - sd \<and> now - sd \<le> n * 86400000))"
proof (intro conjI allI impI)
  show "calculateRecoveryDay now None = 0"
    by (simp add: calculateRecoveryDay_def)
  show "calculateRecoveryDay now (Some sd) = max 0 \<lceil>real_of_int (now - sd) / 86400000\<rceil>"
    by (simp add: calculateRecoveryDay_def Let_def)
  show "calculateRecoveryDay now (Some sd) = 0 \<longleftrightarrow> now \<le> sd"
    unfolding calculateRecoveryDay_div by (rule ceil_days_zero_iff)
next
  fix n :: int
  assume n: "1 \<le> n"
  have "max 0 (- ((sd - now) div 86400000)) = n \<longleftrightarrow> - ((sd - now) div 86400000) = n"
    using n by (auto simp: max_def)
  then show "calculateRecoveryDay now (Some sd) = n
        \<longleftrightarrow> (n - 1) * 86400000 < now - sd \<and> now - sd \<le> n * 86400000"
    unfolding calculateRecoveryDay_div by (simp only: ceil_days_eq_iff)
qed

theorem calculateRecoveryDay_instants_witness:
  "(1::int) \<le> 1
   \<and> (1 - 1) * 86400000 < (1705363200000::int) - 1705276800000
   \<and> (1705363200000::int) - 1705276800000 \<le> 1 * 86400000
   \<and> calculateRecoveryDay 1705363200000 (Some 1705276800000) = 1
   \<and> calculateRecoveryDay 1705276800000 (Some 1705276800000) = 0"
  using calculateRecoveryDay_instants [of 1705363200000 1705276800000]
        calculateRecoveryDay_instants [of 1705276800000 1705276800000]
  by simp

subsection \<open>The tracker routes\<close>

lemma castObjectId_clear: "castObjectId ''clear'' = Inl (CastError ''Cast to ObjectId failed'')"
  by (simp add: castObjectId_def)

lemma dispatch_delete_clear:
  "dispatch routes DELETE ''/clear'' = Handle DeleteSymptomEntry [(''id'', ''clear'')]"
  by (simp add: routes_def)

text \<open>
  For every library, database and authenticated caller, \<open>DELETE /clear\<close> is taken by
  the route \<open>DELETE '/:id'\<close> with \<open>id = 'clear'\<close>: the answer is 404 and nothing is
  deleted.
\<close>

lemma delete_clear_is_taken_by_id_route:
  assumes "authenticateToken l (e_now e) (tr_authorization req) (db_users d) = Inr ru"
    and "ru_id ru \<noteq> []"
    and "tr_method req = DELETE" and "tr_path req = ''/clear''"
  shows "symptomEntryRoutes l e req d = (failure 404 ''Failed to delete symptom entry'', d)"
  using assms
  by (simp add: symptomEntryRoutes_def dispatch_delete_clear deleteSymptomEntry_def
      deleteEntry_def castObjectId_clear)

lemma toLowerCase_char_slash: "toLowerCase_char c = CHR ''/'' \<longleftrightarrow> c = CHR ''/''"
proof -
  have "char_of (of_char c + (32::nat)) \<noteq> CHR ''/''"
    if "(65 \<le> (of_char c :: nat) \<and> (of_char c :: nat) \<le> 90)
        \<or> (192 \<le> (of_char c :: nat) \<and> (of_char c :: nat) \<le> 222)"
  proof
    assume "char_of (of_char c + (32::nat)) = CHR ''/''"
    then have "of_char (char_of (of_char c + (32::nat)) :: char) = (of_char CHR ''/'' :: nat)"
      by simp
    then have "(of_char c + 32) mod 256 = (47::nat)"
      by simp
    with that show False by auto
  qed
  moreover have "c \<noteq> CHR ''/''"
    if "(65 \<le> (of_char c :: nat) \<and> (of_char c :: nat) \<le> 90)
        \<or> (192 \<le> (of_char c :: nat) \<and> (of_char c :: nat) \<le> 222)"
    using that by auto
  ultimately show ?thesis
    by (auto simp: toLowerCase_char_def code_def Let_def)
qed

lemma toLowerCase_no_slash:
  assumes "toLowerCase s = t" and "CHR ''/'' \<notin> set t"
  shows "CHR ''/'' \<notin> set s"
  using assms by (auto simp: toLowerCase_def toLowerCase_char_slash image_iff)
     (metis toLowerCase_char_slash)

lemma param_matches_clear:
  assumes "toLowerCase p = ''/clear'' \<or> toLowerCase p = ''/clear/''"
  shows "matchRoute (Param name) p \<noteq> NoMatch"
proof -
  from assms obtain c cs where p: "p = c # cs" and c: "toLowerCase_char c = CHR ''/''"
    and cs: "toLowerCase cs = ''clear'' \<or> toLowerCase cs = ''clear/''"
    by (cases p) (auto simp: toLowerCase_def)
  from c have c': "c = CHR ''/''" by (simp add: toLowerCase_char_slash)
  from cs show ?thesis
  proof
    assume a: "toLowerCase cs = ''clear''"
    then have ns: "CHR ''/'' \<notin> set cs" by (rule toLowerCase_no_slash) simp
    from a have ne: "cs \<noteq> []" by (auto simp: toLowerCase_def)
    with ns have "last cs \<noteq> CHR ''/''" using last_in_set by metis
    with ns ne p c' show ?thesis by (simp split: option.splits)
  next
    assume a: "toLowerCase cs = ''clear/''"
    then have ne: "cs \<noteq> []" by (auto simp: toLowerCase_def)
    then have sn: "cs = butlast cs @ [last cs]" by simp
    with a have "toLowerCase (butlast cs) @ [toLowerCase_char (last cs)] = ''clear'' @ ''/''"
      by (metis (no_types, lifting) append_Cons append_Nil list.simps(8,9) map_append
          toLowerCase_def)
    then have b: "toLowerCase (butlast cs) = ''clear''" and l: "toLowerCase_char (last cs) = CHR ''/''"
      by simp_all
    from b have ns: "CHR ''/'' \<notin> set (butlast cs)" by (rule toLowerCase_no_slash) simp
    from b have nb: "butlast cs \<noteq> []" by (auto simp: toLowerCase_def)
    from l have "last cs = CHR ''/''" by (simp add: toLowerCase_char_slash)
    with ns nb ne p c' show ?thesis by (simp split: option.splits)
  qed
qed

lemma toLowerCase_clear: "toLowerCase ''clear'' = ''clear''"
  by code_simp

text \<open>
  No method and no path reach \<open>clearUserSymptomEntries\<close>: whatever the literal route
  \<open>'/clear'\<close> matches, the parameter route registered before it matches too.
\<close>

lemma clear_handler_unreachable:
  "dispatch routes m p \<noteq> Handle ClearUserSymptomEntries params"
proof (cases "matchRoute (Param ''id'') p")
  case NoMatch
  then have "\<not> (toLowerCase p = ''/clear'' \<or> toLowerCase p = ''/clear/'')"
    using param_matches_clear by blast
  then have "matchRoute (Literal ''clear'') p = NoMatch"
    by (simp add: toLowerCase_clear)
  with NoMatch show ?thesis
    by (simp only: routes_def dispatch.simps match_result.case) (simp split: if_splits)
next
  case DecodeFailed
  then show ?thesis
    by (simp only: routes_def dispatch.simps match_result.case) (simp split: if_splits)
next
  case (Match ps)
  then show ?thesis
    by (simp only: routes_def dispatch.simps match_result.case) (simp split: if_splits)
qed

text \<open>
  Claim C1 at a concrete request: Sarah, authenticated, with one entry, sends
  \<open>DELETE /api/v1/tracker/clear\<close>. The response is 404 and the database is unchanged;
  the \<open>GET\<close> that follows still returns the entry.
\<close>

theorem delete_clear_answers_404_and_keeps_entries:
  "symptomEntryRoutes stubLib env1
     \<lparr>tr_method = DELETE, tr_path = ''/clear'', tr_authorization = Some sarahToken,
      tr_body = emptyBody\<rparr> db1
   = (\<lparr>status = 404,
       body = JObj [(''success'', JBool False),
                    (''message'', JStr ''Failed to delete symptom entry'')]\<rparr>, db1)
   \<and> symptomEntryRoutes stubLib env2
       \<lparr>tr_method = GET, tr_path = ''/'', tr_authorization = Some sarahToken,
        tr_body = emptyBody\<rparr> db1
     = (\<lparr>status = 200,
         body = JObj [(''success'', JBool True), (''data'', JArr [entryJson entry1]),
                      (''message'', JStr ''Symptom entries retrieved successfully'')]\<rparr>, db1)"
  by code_simp

subsection \<open>Ownership of symptom entries\<close>

lemma find_other_owner:
  assumes "distinct (map se_id coll)" "x \<in> set coll" "se_userId x \<noteq> b"
  shows "find (\<lambda>y. se_id y = se_id x \<and> se_userId y = b) coll = None"
proof -
  have "inj_on se_id (set coll)"
    using assms(1) by (simp add: distinct_map)
  then have "y = x" if "y \<in> set coll" "se_id y = se_id x" for y
    using that assms(2) by (auto dest: inj_onD)
  then show ?thesis
    using assms(3) by (auto simp: find_None_iff)
qed

text \<open>
  Claim C4. Ids are unique in the collection. An entry \<open>x\<close> belongs to another user
  than the authenticated caller \<open>ru\<close>, and \<open>entryId\<close> is the id of \<open>x\<close>. Then both the
  update and the delete answer 404 with \<open>Symptom entry not found\<close>, a body without a
  \<open>data\<close> key, and the collection is the same as before.
\<close>

theorem other_users_entry_is_not_found:
  assumes "distinct (map se_id coll)"
    and "x \<in> set coll"
    and "se_userId x \<noteq> ru_id ru"
    and "ru_id ru \<noteq> []"
    and "castObjectId entryId = Inr (se_id x)"
  shows "updateSymptomEntry e (Some ru) entryId rb coll
           = (\<lparr>status = 404,
               body = JObj [(''success'', JBool False),
                            (''message'', JStr ''Symptom entry not found'')]\<rparr>, coll)
         \<and> deleteSymptomEntry (Some ru) entryId coll
           = (\<lparr>status = 404,
               body = JObj [(''success'', JBool False),
                            (''message'', JStr ''Symptom entry not found'')]\<rparr>, coll)"
  using assms find_other_owner [of coll x "ru_id ru"]
  by (simp add: updateSymptomEntry_def deleteSymptomEntry_def updateEntry_def deleteEntry_def
      failure_def Let_def)

lemma castObjectId_entry1: "castObjectId ''65A4D2000000000000000002'' = Inr (se_id entry1)"
  by code_simp

theorem other_users_entry_is_not_found_witness:
  "distinct (map se_id [entry1]) \<and> entry1 \<in> set [entry1] \<and> se_userId entry1 \<noteq> ru_id bob
   \<and> ru_id bob \<noteq> [] \<and> castObjectId ''65A4D2000000000000000002'' = Inr (se_id entry1)
   \<and> updateSymptomEntry env1 (Some bob) ''65A4D2000000000000000002'' (painBody 9) [entry1]
       = (\<lparr>status = 404,
           body = JObj [(''success'', JBool False),
                        (''message'', JStr ''Symptom entry not found'')]\<rparr>, [entry1])
   \<and> deleteSymptomEntry (Some bob) ''65A4D2000000000000000002'' [entry1]
       = (\<lparr>status = 404,
           body = JObj [(''success'', JBool False),
                        (''message'', JStr ''Symptom entry not found'')]\<rparr>, [entry1])"
proof -
  have h1: "distinct (map se_id [entry1])" by simp
  have h2: "entry1 \<in> set [entry1]" by simp
  have h3: "se_userId entry1 \<noteq> ru_id bob" by (simp add: entry1_def bob_def)
  have h4: "ru_id bob \<noteq> []" by (simp add: bob_def)
  note h5 = castObjectId_entry1
  from other_users_entry_is_not_found [OF h1 h2 h3 h4 h5, of env1 "painBody 9"] h3 h4 h5
  show ?thesis by simp
qed

subsection \<open>Bounds of the pain level\<close>

text \<open>
  Claim C8. The caller is authenticated and the body carries an integer pain level
  \<open>p\<close>. For \<open>0 \<le> p \<le> 10\<close>, the bounds included, and any date (a non-empty string,
  which the schema requires) the answer is 201 and the new entry is stored with that
  pain level; for \<open>p\<close> outside the range, 11 among them, the answer is 400 and nothing
  is stored.
\<close>

theorem createSymptomEntry_painLevel_bounds:
  assumes "ru_id ru \<noteq> []" and "b_painLevel rb = Some p"
  shows "(0 \<le> p \<and> p \<le> 10 \<and> b_date rb = Some dt \<and> dt \<noteq> [] \<longrightarrow>
            (\<exists>x. createSymptomEntry e (Some ru) rb coll
                   = (\<lparr>status = 201,
                       body = JObj [(''success'', JBool True), (''data'', entryJson x),
                                    (''message'', JStr ''Symptom entry created successfully'')]\<rparr>,
                      coll @ [x])
                 \<and> se_painLevel x = p \<and> se_userId x = ru_id ru \<and> se_date x = dt))
       \<and> (p < 0 \<or> 10 < p \<longrightarrow>
            createSymptomEntry e (Some ru) rb coll
              = (\<lparr>status = 400,
                  body = JObj [(''success'', JBool False),
                               (''message'', JStr ''Failed to create symptom entry'')]\<rparr>, coll))"
  using assms
  by (auto simp: createSymptomEntry_def createEntry_def validateEntry_def withData_def
      failure_def Let_def)

theorem createSymptomEntry_painLevel_bounds_witness:
  "ru_id bob \<noteq> [] \<and> b_date (painBody 0) = Some ''2024-01-15'' \<and> ''2024-01-15'' \<noteq> []
   \<and> b_painLevel (painBody 0) = Some 0 \<and> b_painLevel (painBody 10) = Some 10
   \<and> b_painLevel (painBody 11) = Some 11
   \<and> (0::int) \<le> 0 \<and> (0::int) \<le> 10 \<and> (10::int) \<le> 10 \<and> (10::int) < 11
   \<and> (\<exists>x. snd (createSymptomEntry env1 (Some bob) (painBody 0) [entry1]) = [entry1, x]
          \<and> se_painLevel x = 0)
   \<and> (\<exists>x. snd (createSymptomEntry env1 (Some bob) (painBody 10) [entry1]) = [entry1, x]
          \<and> se_painLevel x = 10)
   \<and> createSymptomEntry env1 (Some bob) (painBody 11) [entry1]
       = (\<lparr>status = 400,
           body = JObj [(''success'', JBool False),
                        (''message'', JStr ''Failed to create symptom entry'')]\<rparr>, [entry1])"
proof -
  have h1: "ru_id bob \<noteq> []" by (simp add: bob_def)
  have h2: "b_date (painBody p) = Some ''2024-01-15''" for p by (simp add: painBody_def)
  have h3: "''2024-01-15'' \<noteq> []" by simp
  have h4: "b_painLevel (painBody p) = Some p" for p by (simp add: painBody_def)
  from createSymptomEntry_painLevel_bounds [OF h1 h4, of 0 "''2024-01-15''" env1 "[entry1]"]
       createSymptomEntry_painLevel_bounds [OF h1 h4, of 10 "''2024-01-15''" env1 "[entry1]"]
       createSymptomEntry_painLevel_bounds [OF h1 h4, of 11 "''2024-01-15''" env1 "[entry1]"]
       h1 h2 h4
  show ?thesis by auto
qed

subsection \<open>Upsert of brochure progress\<close>

lemma map_updateFirst_same:
  assumes "\<And>x. g (f x) = g x"
  shows "map g (updateFirst P f xs) = map g xs"
  using assms by (induction xs) auto

lemma filter_updateFirst_unique:
  assumes "distinct (map g xs)" and "\<And>x. g (f x) = g x"
    and "find (\<lambda>x. g x = k) xs = Some r"
  shows "filter (\<lambda>x. g x = k) (updateFirst (\<lambda>x. g x = k) f xs) = [f r]"
  using assms(1,3)
proof (induction xs)
  case Nil
  then show ?case by simp
next
  case (Cons a xs)
  show ?case
  proof (cases "g a = k")
    case True
    with Cons.prems have r: "r = a" by simp
    from True Cons.prems(1) have "\<forall>y \<in> set xs. g y \<noteq> k"
      by (auto simp: image_iff)
    then have "filter (\<lambda>x. g x = k) xs = []" by (simp add: filter_empty_conv)
    with True r assms(2) show ?thesis by simp
  next
    case False
    with Cons show ?thesis by simp
  qed
qed

lemma find_None_filter: "find P xs = None \<Longrightarrow> filter P xs = []"
  by (induction xs) (auto split: if_splits)

lemma progressKey_eq:
  "(bp_userId r = u \<and> bp_sectionId r = s \<and> bp_itemId r = i) \<longleftrightarrow> progressKey r = (u, s, i)"
  by (simp add: progressKey_def)

lemma updateProgress_step:
  assumes "uniqueKeys coll"
  shows "uniqueKeys (snd (updateProgress e u s i c n coll))
    \<and> (\<exists>r. filter (\<lambda>x. progressKey x = (u, s, i)) (snd (updateProgress e u s i c n coll)) = [r]
          \<and> sr_data (fst (updateProgress e u s i c n coll)) = Some (One r)
          \<and> bp_completed r = c
          \<and> bp_notes r = (case n of
                            Some v \<Rightarrow> v
                          | None \<Rightarrow> (case find (\<lambda>x. progressKey x = (u, s, i)) coll of
                                       Some r0 \<Rightarrow> bp_notes r0
                                     | None \<Rightarrow> [])))"
proof (cases "find (\<lambda>x. progressKey x = (u, s, i)) coll")
  case None
  then have nokey: "(u, s, i) \<notin> set (map progressKey coll)"
    by (auto simp: find_None_iff)
  from None have "filter (\<lambda>x. progressKey x = (u, s, i)) coll = []"
    by (rule find_None_filter)
  with None nokey assms show ?thesis
    by (simp add: updateProgress_def progressKey_eq Let_def uniqueKeys_def)
       (simp add: progressKey_def split: option.splits)
next
  case (Some r0)
  let ?upd = "\<lambda>r. r\<lparr>bp_completed := c,
                     bp_notes := (case n of None \<Rightarrow> bp_notes r | Some v \<Rightarrow> v),
                     bp_updatedAt := e_now e\<rparr>"
  have keep: "\<And>x. progressKey (?upd x) = progressKey x"
    by (simp add: progressKey_def)
  have f: "filter (\<lambda>x. progressKey x = (u, s, i))
             (updateFirst (\<lambda>x. progressKey x = (u, s, i)) ?upd coll) = [?upd r0]"
    using assms Some keep
    by (intro filter_updateFirst_unique) (simp_all add: uniqueKeys_def)
  have m: "map progressKey (updateFirst (\<lambda>x. progressKey x = (u, s, i)) ?upd coll)
           = map progressKey coll"
    using keep by (rule map_updateFirst_same)
  from Some f m assms show ?thesis
    by (simp add: updateProgress_def progressKey_eq Let_def uniqueKeys_def split: option.splits)
qed

text \<open>
  Claim C3, amended. The collection has at most one record per key, as the unique
  compound index keeps it. After two calls of the upsert with the same key, the
  invariant holds after the first and after the second call, exactly one record has
  the key, it is the record the second call returns, its \<open>completed\<close> is that of the
  second call, and its notes are those of the second call when that call passes notes;
  when the second call passes none, the notes are those the first call left.
\<close>

theorem upsert_twice_leaves_one_record:
  assumes "uniqueKeys coll"
    and "updateProgress e1 u s i c1 n1 coll = (res1, coll1)"
    and "updateProgress e2 u s i c2 n2 coll1 = (res2, coll2)"
  shows "uniqueKeys coll1 \<and> uniqueKeys coll2
    \<and> (\<exists>r1 r2. filter (\<lambda>x. progressKey x = (u, s, i)) coll1 = [r1]
          \<and> filter (\<lambda>x. progressKey x = (u, s, i)) coll2 = [r2]
          \<and> sr_data res2 = Some (One r2)
          \<and> bp_completed r2 = c2
          \<and> bp_notes r2 = (case n2 of Some v \<Rightarrow> v | None \<Rightarrow> bp_notes r1))"
proof -
  let ?K = "\<lambda>x. progressKey x = (u, s, i)"
  have s1: "snd (updateProgress e1 u s i c1 n1 coll) = coll1"
    using assms(2) by simp
  from updateProgress_step [OF assms(1), of e1 u s i c1 n1]
  obtain r1 where u1: "uniqueKeys coll1" and f1: "filter ?K coll1 = [r1]"
    unfolding s1 by blast
  from f1 have find1: "find ?K coll1 = Some r1"
    by (induction coll1) (auto split: if_splits)
  have s2: "snd (updateProgress e2 u s i c2 n2 coll1) = coll2"
    and q2: "fst (updateProgress e2 u s i c2 n2 coll1) = res2"
    using assms(3) by simp_all
  from updateProgress_step [OF u1, of e2 u s i c2 n2]
  obtain r2 where u2: "uniqueKeys coll2" and f2: "filter ?K coll2 = [r2]"
    and d2: "sr_data res2 = Some (One r2)" and c: "bp_completed r2 = c2"
    and n: "bp_notes r2 = (case n2 of Some v \<Rightarrow> v
                           | None \<Rightarrow> (case find ?K coll1 of Some r0 \<Rightarrow> bp_notes r0
                                                            | None \<Rightarrow> []))"
    unfolding s2 q2 by blast
  from n find1 have "bp_notes r2 = (case n2 of Some v \<Rightarrow> v | None \<Rightarrow> bp_notes r1)"
    by (simp split: option.splits)
  with u1 u2 f1 f2 d2 c show ?thesis by blast
qed

text \<open>
  Claim C3, as stated, has the notes of the stored record equal to the argument of the
  second call. Here the first call passes the notes \<open>day one\<close> and the second call, with
  another \<open>completed\<close>, passes no notes: the single stored record has the new
  \<open>completed\<close> and still the notes \<open>day one\<close>.
\<close>

theorem upsert_without_notes_counterexample:
  "map (\<lambda>r. (bp_completed r, bp_notes r))
     (snd (updateProgress env2 ''65a4d2000000000000000001'' ''section-1'' ''item-1'' False None
        (snd (updateProgress env1 ''65a4d2000000000000000001'' ''section-1'' ''item-1'' True
                (Some ''day one'') []))))
   = [(False, ''day one'')]"
  by (simp add: updateProgress_def Let_def)

theorem upsert_twice_leaves_one_record_witness:
  "uniqueKeys []
   \<and> uniqueKeys (snd (updateProgress env1 ''u1'' ''section-1'' ''item-1'' True (Some ''day one'') []))
   \<and> (\<exists>r1 r2.
         filter (\<lambda>x. progressKey x = (''u1'', ''section-1'', ''item-1''))
           (snd (updateProgress env1 ''u1'' ''section-1'' ''item-1'' True (Some ''day one'') []))
           = [r1]
         \<and> filter (\<lambda>x. progressKey x = (''u1'', ''section-1'', ''item-1''))
             (snd (updateProgress env2 ''u1'' ''section-1'' ''item-1'' False (Some ''better'')
                (snd (updateProgress env1 ''u1'' ''section-1'' ''item-1'' True (Some ''day one'')
                        []))))
           = [r2]
         \<and> bp_completed r2 = False \<and> bp_notes r2 = ''better'')"
proof -
  have h1: "uniqueKeys []" by (simp add: uniqueKeys_def)
  from upsert_twice_leaves_one_record [OF h1 surjective_pairing surjective_pairing,
      of env1 "''u1''" "''section-1''" "''item-1''" True "Some ''day one''"
         env2 False "Some ''better''"] h1
  show ?thesis by auto
qed

subsection \<open>Registration\<close>

lemma new_User_eq:
  "new_User oid em pw fname lname =
     \<lparr>vals = \<lparr>u_id = oid, u_firstName = trim fname, u_lastName = trim lname,
               u_email = toLowerCase (trim em), u_password = Some pw, u_surgeryDate = None,
               u_recoveryDay = 0, u_isActive = True, u_preferences = JObj [],
               u_createdAt = 0, u_updatedAt = 0\<rparr>,
      isNew = True, modified = [''lastName'', ''firstName'', ''password'', ''email'']\<rparr>"
  by (simp add: new_User_def set_lastName_def set_firstName_def set_password_def set_email_def
      markModified_def)

lemma save_new_User:
  assumes "save l e (new_User oid em pw fname lname) users = Inr (d, users')"
  shows "users' = users @ [vals d]
     \<and> vals d = \<lparr>u_id = oid, u_firstName = trim fname, u_lastName = trim lname,
                  u_email = toLowerCase (trim em),
                  u_password = Some (hashSync l (e_salt e) pw), u_surgeryDate = None,
                  u_recoveryDay = 0, u_isActive = True, u_preferences = JObj [],
                  u_createdAt = e_now e, u_updatedAt = e_now e\<rparr>"
  using assms
  by (auto simp: new_User_eq save_def preSave_def isModified_def Let_def
      split: list.splits if_splits)

lemma register_Inr:
  assumes "register l e data users = Inr (ar, users')"
  shows "findOne_email (rg_email data) users = None
     \<and> (\<exists>u. users' = users @ [u]
            \<and> u = \<lparr>u_id = e_newId e, u_firstName = trim (rg_firstName data),
                    u_lastName = trim (rg_lastName data),
                    u_email = toLowerCase (trim (rg_email data)),
                    u_password = Some (hashSync l (e_salt e) (rg_password data)),
                    u_surgeryDate = None, u_recoveryDay = 0, u_isActive = True,
                    u_preferences = JObj [], u_createdAt = e_now e, u_updatedAt = e_now e\<rparr>
            \<and> ar = \<lparr>token = generateToken l (e_now e) u,
                     user = \<lparr>au_id = u_id u, au_email = u_email u,
                             au_firstName = u_firstName u, au_lastName = u_lastName u\<rparr>\<rparr>)"
proof -
  from assms have none: "findOne_email (rg_email data) users = None"
    by (auto simp: register_def split: option.splits)
  with assms obtain d where
    s: "save l e (new_User (e_newId e) (rg_email data) (rg_password data)
                    (rg_firstName data) (rg_lastName data)) users = Inr (d, users')"
    and ar: "ar = \<lparr>token = generateToken l (e_now e) (vals d),
                   user = \<lparr>au_id = u_id (vals d), au_email = u_email (vals d),
                           au_firstName = u_firstName (vals d),
                           au_lastName = u_lastName (vals d)\<rparr>\<rparr>"
    by (auto simp: register_def split: sum.splits)
  from save_new_User [OF s] none ar show ?thesis by simp
qed


lemma validateRegistration_Some:
  assumes "sanitizedData (validateRegistration data) = Some sd"
  shows "\<exists>fname lname em pw.
           rd_firstName data = Some fname \<and> rd_lastName data = Some lname
         \<and> rd_email data = Some em \<and> rd_password data = Some pw
         \<and> sd = \<lparr>sd_firstName = Some (trim fname), sd_lastName = Some (trim lname),
                  sd_email = toLowerCase (trim em), sd_password = pw\<rparr>
         \<and> isValid (validateRegistration data)
         \<and> isValidEmail (toLowerCase (trim em)) \<and> 8 \<le> length pw \<and> passwordRegex_test pw"
  using assms
  by (cases "rd_firstName data"; cases "rd_lastName data"; cases "rd_email data";
      cases "rd_password data")
     (auto simp: validateRegistration_def Let_def split: if_splits)

lemma validateRegistration_isValid:
  assumes "isValid (validateRegistration data)"
  shows "\<exists>sd. sanitizedData (validateRegistration data) = Some sd"
  using assms
  by (cases "rd_firstName data"; cases "rd_lastName data"; cases "rd_email data";
      cases "rd_password data")
     (auto simp: validateRegistration_def Let_def split: if_splits)


lemma signup_201:
  assumes "signup l e rb users = (res, users')" and "status res = 201"
  shows "\<exists>fname lname em pw u.
           sb_firstName rb = Some fname \<and> sb_lastName rb = Some lname
         \<and> sb_email rb = Some em \<and> sb_password rb = Some pw
         \<and> 8 \<le> length pw \<and> passwordRegex_test pw
         \<and> findOne_email (toLowerCase (trim em)) users = None
         \<and> users' = users @ [u]
         \<and> u = \<lparr>u_id = e_newId e, u_firstName = trim (trim fname),
                 u_lastName = trim (trim lname),
                 u_email = toLowerCase (trim (toLowerCase (trim em))),
                 u_password = Some (hashSync l (e_salt e) pw),
                 u_surgeryDate = None, u_recoveryDay = 0, u_isActive = True,
                 u_preferences = JObj [], u_createdAt = e_now e, u_updatedAt = e_now e\<rparr>
         \<and> body res = JObj
              [(''success'', JBool True),
               (''data'', JObj
                  [(''user'', JObj
                      [(''id'', JStr (u_id u)),
                       (''firstName'', JStr (u_firstName u)),
                       (''lastName'', JStr (u_lastName u)),
                       (''email'', JStr (u_email u)),
                       (''surgeryDate'',
                          (case sb_surgeryDate rb of
                             None \<Rightarrow> JNull
                           | Some sd \<Rightarrow> if sd = [] then JNull else JStr sd)),
                       (''recoveryDay'', JNum 0)]),
                   (''token'', JStr (generateToken l (e_now e) u))]),
               (''message'', JStr ''User created successfully'')]"
proof -
  let ?data = "\<lparr>rd_firstName = sb_firstName rb, rd_lastName = sb_lastName rb,
                 rd_email = sb_email rb, rd_password = sb_password rb\<rparr>"
  from assms have valid: "isValid (validateRegistration ?data)"
    by (auto simp: signup_def Let_def validationFailed_def split: if_splits)
  then obtain sd where sd: "sanitizedData (validateRegistration ?data) = Some sd"
    using validateRegistration_isValid by blast
  from validateRegistration_Some [OF sd] obtain fname lname em pw where
    f: "sb_firstName rb = Some fname" "sb_lastName rb = Some lname"
       "sb_email rb = Some em" "sb_password rb = Some pw"
    and sdeq: "sd = \<lparr>sd_firstName = Some (trim fname), sd_lastName = Some (trim lname),
                      sd_email = toLowerCase (trim em), sd_password = pw\<rparr>"
    and pw: "8 \<le> length pw" "passwordRegex_test pw"
    by auto
  let ?reg = "register l e \<lparr>rg_email = toLowerCase (trim em), rg_password = pw,
                             rg_firstName = trim fname, rg_lastName = trim lname\<rparr> users"
  from assms valid sd sdeq obtain ar where r: "?reg = Inr (ar, users')"
    by (auto simp: signup_def Let_def unexpected_def split: if_splits sum.splits)
  from assms valid sd sdeq r have b: "body res = JObj
              [(''success'', JBool True),
               (''data'', JObj
                  [(''user'', JObj
                      [(''id'', JStr (au_id (user ar))),
                       (''firstName'', JStr (au_firstName (user ar))),
                       (''lastName'', JStr (au_lastName (user ar))),
                       (''email'', JStr (au_email (user ar))),
                       (''surgeryDate'',
                          (case sb_surgeryDate rb of
                             None \<Rightarrow> JNull
                           | Some sd \<Rightarrow> if sd = [] then JNull else JStr sd)),
                       (''recoveryDay'', JNum 0)]),
                   (''token'', JStr (token ar))]),
               (''message'', JStr ''User created successfully'')]"
    by (auto simp: signup_def Let_def split: option.splits)
  from register_Inr [OF r] f pw b show ?thesis by auto
qed

text \<open>
  Claim C6, amended. A first registration has succeeded with 201. A second registration
  carries an email that is equal to the first one after trimming and lowering the
  case. It never succeeds and leaves the users as the first registration left them: no
  second user, and the first one as it was. When its fields pass the validation of the
  request it is answered with 409 and \<open>Email already in use\<close>; when they do not, the
  validation, which runs before the lookup of the email, answers 400 with the list of
  field errors.
\<close>

theorem duplicate_email_conflict:
  assumes "signup l e1 rb1 users = (res1, users1)" and "status res1 = 201"
    and "sb_email rb1 = Some em1" and "sb_email rb2 = Some em2"
    and "toLowerCase (trim em1) = toLowerCase (trim em2)"
  shows "snd (signup l e2 rb2 users1) = users1
       \<and> status (fst (signup l e2 rb2 users1)) \<noteq> 201
       \<and> (isValid (validateRegistration
                     \<lparr>rd_firstName = sb_firstName rb2, rd_lastName = sb_lastName rb2,
                      rd_email = sb_email rb2, rd_password = sb_password rb2\<rparr>) \<longrightarrow>
            signup l e2 rb2 users1
              = (\<lparr>status = 409,
                  body = JObj [(''success'', JBool False),
                               (''error'', JStr ''Registration failed''),
                               (''errors'', JArr [JObj [(''message'', JStr ''Email already in use''),
                                                        (''field'', JStr ''email'')]])]\<rparr>,
                 users1))
       \<and> (\<not> isValid (validateRegistration
                       \<lparr>rd_firstName = sb_firstName rb2, rd_lastName = sb_lastName rb2,
                        rd_email = sb_email rb2, rd_password = sb_password rb2\<rparr>) \<longrightarrow>
            signup l e2 rb2 users1
              = (validationFailed
                   (validateRegistration
                      \<lparr>rd_firstName = sb_firstName rb2, rd_lastName = sb_lastName rb2,
                       rd_email = sb_email rb2, rd_password = sb_password rb2\<rparr>),
                 users1)
            \<and> status (fst (signup l e2 rb2 users1)) = 400)"
proof (cases "isValid (validateRegistration
                     \<lparr>rd_firstName = sb_firstName rb2, rd_lastName = sb_lastName rb2,
                      rd_email = sb_email rb2, rd_password = sb_password rb2\<rparr>)")
  case False
  then show ?thesis
    by (simp add: signup_def Let_def validationFailed_def)
next
  case True
  let ?data = "\<lparr>rd_firstName = sb_firstName rb2, rd_lastName = sb_lastName rb2,
                 rd_email = sb_email rb2, rd_password = sb_password rb2\<rparr>"
  from signup_201 [OF assms(1,2)] assms(3) obtain u where
    u: "users1 = users @ [u]" "u_email u = toLowerCase (trim (toLowerCase (trim em1)))"
    by auto
  from True obtain sd where sd: "sanitizedData (validateRegistration ?data) = Some sd"
    using validateRegistration_isValid by blast
  from validateRegistration_Some [OF sd] assms(4) obtain fname lname pw where
    sdeq: "sd = \<lparr>sd_firstName = Some (trim fname), sd_lastName = Some (trim lname),
                  sd_email = toLowerCase (trim em2), sd_password = pw\<rparr>"
    by auto
  have "findOne_email (toLowerCase (trim em2)) users1 \<noteq> None"
    using u assms(5) by (auto simp: findOne_email_def find_None_iff)
  then have "register l e2 \<lparr>rg_email = toLowerCase (trim em2), rg_password = pw,
                             rg_firstName = trim fname, rg_lastName = trim lname\<rparr> users1
             = Inl (Error ''User with this email already exists'')"
    by (auto simp: register_def split: option.splits)
  with True sd sdeq have "signup l e2 rb2 users1
              = (\<lparr>status = 409,
                  body = JObj [(''success'', JBool False),
                               (''error'', JStr ''Registration failed''),
                               (''errors'', JArr [JObj [(''message'', JStr ''Email already in use''),
                                                        (''field'', JStr ''email'')]])]\<rparr>,
                 users1)"
    by (simp add: signup_def Let_def errorItem_def)
  with True show ?thesis by simp
qed

lemma signup_sarah_status: "status (fst (signup stubLib env0 sarahSignup [])) = 201"
  by code_simp

lemma signup_sarah_store: "snd (signup stubLib env0 sarahSignup []) = [sarah]"
  by code_simp

lemma signup_sarah: "signup stubLib env0 sarahSignup [] = (fst (signup stubLib env0 sarahSignup []), [sarah])"
  using signup_sarah_store by (metis surjective_pairing)

theorem duplicate_email_conflict_witness:
  "status (fst (signup stubLib env0 sarahSignup [])) = 201
   \<and> snd (signup stubLib env0 sarahSignup []) = [sarah]
   \<and> toLowerCase (trim ''sarah@x.com'') = toLowerCase (trim '' Sarah@X.COM '')
   \<and> isValid (validateRegistration
                \<lparr>rd_firstName = sb_firstName sarahAgain, rd_lastName = sb_lastName sarahAgain,
                 rd_email = sb_email sarahAgain, rd_password = sb_password sarahAgain\<rparr>)
   \<and> signup stubLib env1 sarahAgain [sarah]
       = (\<lparr>status = 409,
           body = JObj [(''success'', JBool False), (''error'', JStr ''Registration failed''),
                        (''errors'', JArr [JObj [(''message'', JStr ''Email already in use''),
                                                 (''field'', JStr ''email'')]])]\<rparr>,
          [sarah])
   \<and> toLowerCase (trim ''sarah@x.com'') = toLowerCase (trim ''Sarah@X.com'')
   \<and> \<not> isValid (validateRegistration
                  \<lparr>rd_firstName = sb_firstName sarahShort, rd_lastName = sb_lastName sarahShort,
                   rd_email = sb_email sarahShort, rd_password = sb_password sarahShort\<rparr>)
   \<and> status (fst (signup stubLib env2 sarahShort [sarah])) = 400
   \<and> snd (signup stubLib env2 sarahShort [sarah]) = [sarah]"
proof -
  have h3: "sb_email sarahSignup = Some ''sarah@x.com''" by (simp add: sarahSignup_def)
  have h4: "sb_email sarahAgain = Some '' Sarah@X.COM ''" by (simp add: sarahAgain_def)
  have h5: "toLowerCase (trim ''sarah@x.com'') = toLowerCase (trim '' Sarah@X.COM '')"
    by code_simp
  have h6: "isValid (validateRegistration
                \<lparr>rd_firstName = sb_firstName sarahAgain, rd_lastName = sb_lastName sarahAgain,
                 rd_email = sb_email sarahAgain, rd_password = sb_password sarahAgain\<rparr>)"
    by code_simp
  have k4: "sb_email sarahShort = Some ''Sarah@X.com''" by (simp add: sarahShort_def)
  have k5: "toLowerCase (trim ''sarah@x.com'') = toLowerCase (trim ''Sarah@X.com'')"
    by code_simp
  have k6: "\<not> isValid (validateRegistration
                  \<lparr>rd_firstName = sb_firstName sarahShort, rd_lastName = sb_lastName sarahShort,
                   rd_email = sb_email sarahShort, rd_password = sb_password sarahShort\<rparr>)"
    by code_simp
  from duplicate_email_conflict [OF signup_sarah signup_sarah_status h3 h4 h5, of env1] h6
  have a: "signup stubLib env1 sarahAgain [sarah]
       = (\<lparr>status = 409,
           body = JObj [(''success'', JBool False), (''error'', JStr ''Registration failed''),
                        (''errors'', JArr [JObj [(''message'', JStr ''Email already in use''),
                                                 (''field'', JStr ''email'')]])]\<rparr>,
          [sarah])"
    by (elim conjE) simp
  from duplicate_email_conflict [OF signup_sarah signup_sarah_status h3 k4 k5, of env2] k6
  have b: "status (fst (signup stubLib env2 sarahShort [sarah])) = 400"
    and c: "snd (signup stubLib env2 sarahShort [sarah]) = [sarah]"
    by (elim conjE, simp)+
  show ?thesis
    by (intro conjI)
       (fact signup_sarah_status, fact signup_sarah_store, fact h5, fact h6, fact a, fact k5,
        fact k6, fact b, fact c)
qed

text \<open>
  Claim C6, as stated, has every second registration with the same email answered with
  409. Sarah is registered; a second registration with her email in another case and
  the password \<open>short\<close> is answered with 400 by the validation, and the users are as
  they were.
\<close>

theorem duplicate_email_with_invalid_fields_counterexample:
  "status (fst (signup stubLib env0 sarahSignup [])) = 201
   \<and> snd (signup stubLib env0 sarahSignup []) = [sarah]
   \<and> toLowerCase (trim ''sarah@x.com'') = toLowerCase (trim ''Sarah@X.com'')
   \<and> signup stubLib env1 sarahShort [sarah]
       = (\<lparr>status = 400,
           body = JObj [(''success'', JBool False), (''error'', JStr ''Validation failed''),
                        (''errors'',
                           JArr [JObj [(''message'',
                                          JStr ''Password must be at least 4 characters long''),
                                       (''field'', JStr ''password'')]])]\<rparr>,
          [sarah])"
  by code_simp


subsection \<open>Sign-in\<close>






subsection \<open>Authorization gate\<close>

lemma split_str_no_sep: "sep \<notin> set s \<Longrightarrow> split_str sep s = [s]"
  by (induction s) auto

lemma find_updateFirst:
  assumes "\<And>x. P (f x) = P x"
  shows "find P (updateFirst P f xs) = map_option f (find P xs)"
  using assms by (induction xs) auto

lemma find_deleteFirst_distinct:
  assumes "distinct (map g xs)"
  shows "find (\<lambda>x. g x = k) (deleteFirst (\<lambda>x. g x = k) xs) = None"
  using assms by (induction xs) (auto simp: find_None_iff image_iff)

lemma authenticateToken_verified:
  assumes "jwt_verify l tok t = Inr decoded" and "tok \<noteq> []" and "CHR '' '' \<notin> set tok"
    and "castObjectId (jp_userId decoded) = Inr oid"
  shows "authenticateToken l t (Some (''Bearer '' @ tok)) users =
     (case find (\<lambda>u. u_id u = oid) users of
        None \<Rightarrow> Inl \<lparr>status = 401,
                     body = JObj [(''success'', JBool False), (''error'', JStr ''User not found'')]\<rparr>
      | Some u \<Rightarrow> Inr \<lparr>ru_id = u_id u, ru_firstName = u_firstName u,
                        ru_lastName = u_lastName u, ru_email = u_email u\<rparr>)"
  using assms
  by (simp add: authenticateToken_def Let_def split_str_no_sep findById_def split: option.splits)

lemma deactivateUser_Inr:
  assumes "deactivateUser l e uid users = Inr (r, users')" and "castObjectId uid = Inr oid"
  shows "\<exists>u0. find (\<lambda>u. u_id u = oid) users = Some u0
           \<and> find (\<lambda>u. u_id u = oid) users'
               = Some (if u_isActive u0
                       then u0\<lparr>u_isActive := False, u_updatedAt := e_now e\<rparr> else u0)"
proof -
  from assms obtain u0 where f: "find (\<lambda>u. u_id u = oid) users = Some u0"
    by (auto simp: deactivateUser_def findById_def split: option.splits)
  then have id0: "u_id u0 = oid"
    by (auto dest: find_Some_iff [THEN iffD1])
  let ?d = "set_isActive False (loaded (select_minus_password u0))"
  from assms f obtain d where s: "save l e ?d users = Inr (d, users')"
    by (auto simp: deactivateUser_def findById_def split: sum.splits)
  show ?thesis
  proof (cases "u_isActive u0")
    case False
    then have "modified ?d = []" "isNew ?d = False"
      by (simp_all add: set_isActive_def markModified_def loaded_def select_minus_password_def)
    with s have "users' = users"
      by (auto simp: save_def preSave_def isModified_def Let_def split: list.splits if_splits)
    with f False show ?thesis by simp
  next
    case True
    then have m: "modified ?d = [''isActive'']" "isNew ?d = False"
      "vals ?d = (select_minus_password u0)\<lparr>u_isActive := False\<rparr>"
      by (simp_all add: set_isActive_def markModified_def loaded_def select_minus_password_def)
    with s have "users' = updateFirst (\<lambda>u. u_id u = oid)
                   (\<lambda>u. (writePaths [''isActive''] ((select_minus_password u0)\<lparr>u_isActive := False\<rparr>) u)
                           \<lparr>u_updatedAt := e_now e\<rparr>) users"
      using id0
      by (auto simp: save_def preSave_def isModified_def Let_def select_minus_password_def
          split: list.splits if_splits)
    then have "find (\<lambda>u. u_id u = oid) users'
        = map_option (\<lambda>u. (writePaths [''isActive''] ((select_minus_password u0)\<lparr>u_isActive := False\<rparr>) u)
                           \<lparr>u_updatedAt := e_now e\<rparr>) (find (\<lambda>u. u_id u = oid) users)"
      by (simp add: find_updateFirst writePaths_def)
    with f True show ?thesis
      by (simp add: writePaths_def select_minus_password_def)
  qed
qed

lemma deleteUser_Inr:
  assumes "deleteUser uid users = Inr users'" and "castObjectId uid = Inr oid"
    and "distinct (map u_id users)"
  shows "find (\<lambda>u. u_id u = oid) users' = None"
proof -
  from assms(1,2) obtain u0 where f: "find (\<lambda>u. u_id u = oid) users = Some u0"
    and u: "users' = deleteFirst (\<lambda>x. u_id x = u_id u0) users"
    by (auto simp: deleteUser_def findById_def split: option.splits)
  from f have "u_id u0 = oid" by (auto dest: find_Some_iff [THEN iffD1])
  with u assms(3) show ?thesis by (simp add: find_deleteFirst_distinct)
qed

text \<open>
  Claim C5, amended. The request carries \<open>Bearer tok\<close> and the token verifies. The
  gate resolves the user of the token in the store again. When no user has the id,
  also after \<open>deleteUser\<close> of that account, the request is rejected with 401 and
  \<open>User not found\<close>. When the user exists, the request goes on with the identity of
  the user; \<open>isActive\<close> is not read, so after \<open>deactivateUser\<close> of the account the token
  is still accepted.
\<close>

theorem gate_rejects_deleted_but_not_deactivated:
  assumes "jwt_verify l tok t = Inr decoded" and "tok \<noteq> []" and "CHR '' '' \<notin> set tok"
    and "castObjectId (jp_userId decoded) = Inr oid"
  shows "(find (\<lambda>u. u_id u = oid) users = None \<longrightarrow>
            authenticateToken l t (Some (''Bearer '' @ tok)) users
              = Inl \<lparr>status = 401,
                     body = JObj [(''success'', JBool False),
                                  (''error'', JStr ''User not found'')]\<rparr>)
       \<and> (\<forall>users'. distinct (map u_id users)
                   \<and> deleteUser (jp_userId decoded) users = Inr users' \<longrightarrow>
            authenticateToken l t (Some (''Bearer '' @ tok)) users'
              = Inl \<lparr>status = 401,
                     body = JObj [(''success'', JBool False),
                                  (''error'', JStr ''User not found'')]\<rparr>)
       \<and> (\<forall>u. find (\<lambda>u. u_id u = oid) users = Some u \<longrightarrow>
            authenticateToken l t (Some (''Bearer '' @ tok)) users
              = Inr \<lparr>ru_id = u_id u, ru_firstName = u_firstName u,
                     ru_lastName = u_lastName u, ru_email = u_email u\<rparr>)
       \<and> (\<forall>e r users'. deactivateUser l e (jp_userId decoded) users = Inr (r, users') \<longrightarrow>
            (\<exists>u. find (\<lambda>u. u_id u = oid) users' = Some u \<and> \<not> u_isActive u
                \<and> authenticateToken l t (Some (''Bearer '' @ tok)) users'
                    = Inr \<lparr>ru_id = u_id u, ru_firstName = u_firstName u,
                           ru_lastName = u_lastName u, ru_email = u_email u\<rparr>))"
proof (intro conjI allI impI)
  note a = authenticateToken_verified [OF assms]
  show "authenticateToken l t (Some (''Bearer '' @ tok)) users
          = Inl \<lparr>status = 401,
                 body = JObj [(''success'', JBool False), (''error'', JStr ''User not found'')]\<rparr>"
    if "find (\<lambda>u. u_id u = oid) users = None"
    unfolding a using that by simp
  show "authenticateToken l t (Some (''Bearer '' @ tok)) users'
          = Inl \<lparr>status = 401,
                 body = JObj [(''success'', JBool False), (''error'', JStr ''User not found'')]\<rparr>"
    if "distinct (map u_id users) \<and> deleteUser (jp_userId decoded) users = Inr users'"
    for users'
    unfolding authenticateToken_verified [OF assms]
    using that deleteUser_Inr [of "jp_userId decoded" users users' oid] assms(4)
    by simp
  show "authenticateToken l t (Some (''Bearer '' @ tok)) users
          = Inr \<lparr>ru_id = u_id u, ru_firstName = u_firstName u,
                 ru_lastName = u_lastName u, ru_email = u_email u\<rparr>"
    if "find (\<lambda>u. u_id u = oid) users = Some u" for u
    unfolding a using that by simp
  show "\<exists>u. find (\<lambda>u. u_id u = oid) users' = Some u \<and> \<not> u_isActive u
          \<and> authenticateToken l t (Some (''Bearer '' @ tok)) users'
              = Inr \<lparr>ru_id = u_id u, ru_firstName = u_firstName u,
                     ru_lastName = u_lastName u, ru_email = u_email u\<rparr>"
    if "deactivateUser l e (jp_userId decoded) users = Inr (r, users')" for e r users'
    unfolding authenticateToken_verified [OF assms]
    using deactivateUser_Inr [OF that assms(4)] by auto
qed

lemma ev_verify:
  "jwt_verify stubLib ''jwt.65a4d2000000000000000001'' 1705323600000
     = Inr \<lparr>jp_userId = ''65a4d2000000000000000001'', jp_email = []\<rparr>"
  by code_simp

lemma ev_cast_sarah:
  "castObjectId (jp_userId \<lparr>jp_userId = ''65a4d2000000000000000001'', jp_email = []\<rparr>)
     = Inr ''65a4d2000000000000000001''"
  by code_simp

lemma ev_delete_sarah:
  "distinct (map u_id [sarah])
   \<and> deleteUser (jp_userId \<lparr>jp_userId = ''65a4d2000000000000000001'', jp_email = []\<rparr>) [sarah]
       = Inr []"
  by code_simp

lemma ev_deactivate_sarah:
  "deactivateUser stubLib env1
     (jp_userId \<lparr>jp_userId = ''65a4d2000000000000000001'', jp_email = []\<rparr>) [sarah]
     = Inr (Some (sarah\<lparr>u_password := None, u_isActive := False, u_updatedAt := 1705320000000\<rparr>),
            [sarah\<lparr>u_isActive := False, u_updatedAt := 1705320000000\<rparr>])"
  by code_simp

theorem gate_rejects_deleted_but_not_deactivated_witness:
  "jwt_verify stubLib ''jwt.65a4d2000000000000000001'' 1705323600000
     = Inr \<lparr>jp_userId = ''65a4d2000000000000000001'', jp_email = []\<rparr>
   \<and> ''jwt.65a4d2000000000000000001'' \<noteq> []
   \<and> CHR '' '' \<notin> set ''jwt.65a4d2000000000000000001''
   \<and> deleteUser ''65a4d2000000000000000001'' [sarah] = Inr []
   \<and> authenticateToken stubLib 1705323600000
         (Some (''Bearer '' @ ''jwt.65a4d2000000000000000001'')) []
       = Inl \<lparr>status = 401,
              body = JObj [(''success'', JBool False), (''error'', JStr ''User not found'')]\<rparr>
   \<and> (\<exists>u. find (\<lambda>u. u_id u = ''65a4d2000000000000000001'')
               [sarah\<lparr>u_isActive := False, u_updatedAt := 1705320000000\<rparr>] = Some u
          \<and> \<not> u_isActive u
          \<and> authenticateToken stubLib 1705323600000
                (Some (''Bearer '' @ ''jwt.65a4d2000000000000000001''))
                [sarah\<lparr>u_isActive := False, u_updatedAt := 1705320000000\<rparr>]
              = Inr \<lparr>ru_id = u_id u, ru_firstName = u_firstName u,
                     ru_lastName = u_lastName u, ru_email = u_email u\<rparr>)"
proof -
  have h2: "''jwt.65a4d2000000000000000001'' \<noteq> []" by simp
  have h3: "CHR '' '' \<notin> set ''jwt.65a4d2000000000000000001''" by simp
  note t = gate_rejects_deleted_but_not_deactivated [OF ev_verify h2 h3 ev_cast_sarah, of "[sarah]"]
  from t ev_delete_sarah
  have a: "authenticateToken stubLib 1705323600000
         (Some (''Bearer '' @ ''jwt.65a4d2000000000000000001'')) []
       = Inl \<lparr>status = 401,
              body = JObj [(''success'', JBool False), (''error'', JStr ''User not found'')]\<rparr>"
    by blast
  from t ev_deactivate_sarah
  have b: "\<exists>u. find (\<lambda>u. u_id u = ''65a4d2000000000000000001'')
               [sarah\<lparr>u_isActive := False, u_updatedAt := 1705320000000\<rparr>] = Some u
          \<and> \<not> u_isActive u
          \<and> authenticateToken stubLib 1705323600000
                (Some (''Bearer '' @ ''jwt.65a4d2000000000000000001''))
                [sarah\<lparr>u_isActive := False, u_updatedAt := 1705320000000\<rparr>]
              = Inr \<lparr>ru_id = u_id u, ru_firstName = u_firstName u,
                     ru_lastName = u_lastName u, ru_email = u_email u\<rparr>"
    by blast
  from ev_delete_sarah have c: "deleteUser ''65a4d2000000000000000001'' [sarah] = Inr []"
    by simp
  from a b c ev_verify h2 h3 show ?thesis by blast
qed

text \<open>
  Claim C5, as stated, has a request with a valid token of a deactivated account
  rejected with 401. Sarah is deactivated through \<open>deactivateUser\<close>; the gate then
  hands her identity on to the handler.
\<close>

theorem deactivated_account_passes_gate_counterexample:
  "deactivateUser stubLib env1 ''65a4d2000000000000000001'' [sarah]
     = Inr (Some (sarah\<lparr>u_password := None, u_isActive := False, u_updatedAt := 1705320000000\<rparr>),
            [sarah\<lparr>u_isActive := False, u_updatedAt := 1705320000000\<rparr>])
   \<and> authenticateToken stubLib 1705323600000 (Some ''Bearer jwt.65a4d2000000000000000001'')
       [sarah\<lparr>u_isActive := False, u_updatedAt := 1705320000000\<rparr>]
     = Inr \<lparr>ru_id = ''65a4d2000000000000000001'', ru_firstName = ''Sarah'',
            ru_lastName = ''Johnson'', ru_email = ''sarah@x.com''\<rparr>"
  by code_simp

subsection \<open>Stored passwords\<close>

lemma changePassword_Inr:
  assumes "changePassword l e uid cur new users = Inr users'" and "castObjectId uid = Inr oid"
  shows "\<exists>u. find (\<lambda>x. u_id x = oid) users = Some u \<and> comparePassword l u cur
           \<and> (u_password u = Some new \<longrightarrow> users' = users)
           \<and> (u_password u \<noteq> Some new \<longrightarrow>
                find (\<lambda>x. u_id x = oid) users'
                  = Some (u\<lparr>u_password := Some (hashSync l (e_salt e) new),
                            u_updatedAt := e_now e\<rparr>))"
proof -
  from assms obtain u where f: "find (\<lambda>x. u_id x = oid) users = Some u"
    by (auto simp: changePassword_def findById_def split: option.splits)
  then have idu: "u_id u = oid"
    by (auto dest: find_Some_iff [THEN iffD1])
  from assms f have cmp: "comparePassword l u cur"
    by (auto simp: changePassword_def findById_def Let_def split: if_splits)
  let ?d = "set_password new (loaded u)"
  from assms f cmp obtain d where s: "save l e ?d users = Inr (d, users')"
    by (auto simp: changePassword_def findById_def Let_def split: sum.splits)
  have same: "users' = users" if "u_password u = Some new"
  proof -
    from that have "modified ?d = []" "isNew ?d = False"
      by (simp_all add: set_password_def markModified_def loaded_def)
    with s show ?thesis
      by (auto simp: save_def preSave_def isModified_def Let_def split: list.splits if_splits)
  qed
  have changed: "find (\<lambda>x. u_id x = oid) users'
                  = Some (u\<lparr>u_password := Some (hashSync l (e_salt e) new),
                            u_updatedAt := e_now e\<rparr>)"
    if "u_password u \<noteq> Some new"
  proof -
    from that have m: "modified ?d = [''password'']" "isNew ?d = False"
      "vals ?d = u\<lparr>u_password := Some new\<rparr>"
      by (simp_all add: set_password_def markModified_def loaded_def)
    with s idu have "users' = updateFirst (\<lambda>x. u_id x = oid)
                   (\<lambda>x. (writePaths [''password'']
                            (u\<lparr>u_password := Some (hashSync l (e_salt e) new)\<rparr>) x)
                           \<lparr>u_updatedAt := e_now e\<rparr>) users"
      by (auto simp: save_def preSave_def isModified_def Let_def
          split: list.splits if_splits)
    then have "find (\<lambda>x. u_id x = oid) users'
        = map_option (\<lambda>x. (writePaths [''password'']
                            (u\<lparr>u_password := Some (hashSync l (e_salt e) new)\<rparr>) x)
                           \<lparr>u_updatedAt := e_now e\<rparr>) (find (\<lambda>x. u_id x = oid) users)"
      by (simp add: find_updateFirst writePaths_def)
    with f show ?thesis by (simp add: writePaths_def)
  qed
  from f cmp same changed show ?thesis by blast
qed

lemma changePassword_handler_200:
  assumes "changePassword_handler l e (Some ru) (Some cur) (Some new) users = (res, users')"
    and "status res = 200"
  shows "changePassword l e (ru_id ru) cur new users = Inr users' \<and> 8 \<le> length new \<and> cur \<noteq> new"
  using assms
  by (auto simp: changePassword_handler_def unauthorized_def passwordInvalid_def
      split: if_splits sum.splits)

text \<open>For every library: a change to the very string that is stored writes nothing.\<close>

lemma changePassword_to_stored_string:
  assumes "castObjectId uid = Inr oid" and "find (\<lambda>x. u_id x = oid) users = Some u"
    and "u_password u = Some h" and "h \<noteq> []" and "compareSync l cur h"
    and "validationErrors (loaded u) = []"
  shows "changePassword l e uid cur h users = Inr users"
proof -
  have "modified (set_password h (loaded u)) = []" "isNew (set_password h (loaded u)) = False"
    "set_password h (loaded u) = loaded u"
    using assms(3) by (simp_all add: set_password_def markModified_def loaded_def)
  with assms show ?thesis
    by (simp add: changePassword_def findById_def comparePassword_def save_def preSave_def
        isModified_def Let_def)
qed

text \<open>
  What holds of stored passwords for every library. After a registration that is
  answered with 201, the stored password of the new user is the salted hash of the
  submitted password. \<open>getUserById\<close> returns no password. After a password change that
  is answered with 200, where the new password is not the very string that is stored,
  the stored password is the salted hash of the new password.
\<close>

lemma stored_password_is_hash:
  "(signup l e rb users = (res, users') \<and> status res = 201 \<longrightarrow>
      (\<exists>u pw. users' = users @ [u] \<and> sb_password rb = Some pw
             \<and> u_password u = Some (hashSync l (e_salt e) pw)))
   \<and> (getUserById uid users = Inr (Some v) \<longrightarrow> u_password v = None)
   \<and> (changePassword_handler l e (Some ru) (Some cur) (Some new) users = (res, users')
        \<and> status res = 200 \<and> castObjectId (ru_id ru) = Inr oid
        \<and> find (\<lambda>x. u_id x = oid) users = Some u0 \<and> u_password u0 \<noteq> Some new \<longrightarrow>
      (\<exists>u. find (\<lambda>x. u_id x = oid) users' = Some u
          \<and> u_password u = Some (hashSync l (e_salt e) new)))"
proof (intro conjI impI)
  assume "signup l e rb users = (res, users') \<and> status res = 201"
  then have a: "signup l e rb users = (res, users')" "status res = 201" by simp_all
  from signup_201 [OF a] obtain fname lname em pw u where
    "users' = users @ [u]" "sb_password rb = Some pw"
    "u = \<lparr>u_id = e_newId e, u_firstName = trim (trim fname),
                 u_lastName = trim (trim lname),
                 u_email = toLowerCase (trim (toLowerCase (trim em))),
                 u_password = Some (hashSync l (e_salt e) pw),
                 u_surgeryDate = None, u_recoveryDay = 0, u_isActive = True,
                 u_preferences = JObj [], u_createdAt = e_now e, u_updatedAt = e_now e\<rparr>"
    by blast
  then show "\<exists>u pw. users' = users @ [u] \<and> sb_password rb = Some pw
             \<and> u_password u = Some (hashSync l (e_salt e) pw)"
    by (intro exI [of _ u] exI [of _ pw]) simp
next
  assume "getUserById uid users = Inr (Some v)"
  then show "u_password v = None"
    by (auto simp: getUserById_def select_minus_password_def split: sum.splits)
next
  assume h: "changePassword_handler l e (Some ru) (Some cur) (Some new) users = (res, users')
        \<and> status res = 200 \<and> castObjectId (ru_id ru) = Inr oid
        \<and> find (\<lambda>x. u_id x = oid) users = Some u0 \<and> u_password u0 \<noteq> Some new"
  then have c: "changePassword l e (ru_id ru) cur new users = Inr users'"
    using changePassword_handler_200 by blast
  from changePassword_Inr [OF c] h
  have "find (\<lambda>x. u_id x = oid) users'
          = Some (u0\<lparr>u_password := Some (hashSync l (e_salt e) new), u_updatedAt := e_now e\<rparr>)"
    by auto
  then show "\<exists>u. find (\<lambda>x. u_id x = oid) users' = Some u
          \<and> u_password u = Some (hashSync l (e_salt e) new)"
    by simp
qed

text \<open>
  Claim C9 at a concrete request. Sarah registers with \<open>Passw0rd\<close>; her stored
  password is the hash. She then changes her password, giving the string of the stored
  hash as the new password. The handler answers 200 with
  \<open>Password changed successfully\<close>, yet the path is not marked modified, the pre-save
  hook does not hash and nothing is written: the stored password is the string she
  submitted, signing in with it fails and the old password still signs in. By
  \<open>changePassword_to_stored_string\<close> the same happens with every library.
\<close>

theorem password_change_to_stored_hash_writes_nothing:
  "snd (signup stubLib env0 sarahSignup []) = [sarah]
   \<and> u_password sarah = Some ''$2a$10$saltsaltsaltsaltsaltsadr0wssaP''
   \<and> changePassword_handler stubLib env2 (Some sarahReq) (Some ''Passw0rd'')
        (Some ''$2a$10$saltsaltsaltsaltsaltsadr0wssaP'') [sarah]
      = (\<lparr>status = 200,
          body = JObj [(''success'', JBool True),
                       (''message'', JStr ''Password changed successfully'')]\<rparr>, [sarah])
   \<and> signin stubLib 1705323600000 hashSignin [sarah] = authenticationFailed
   \<and> status (signin stubLib 1705323600000 sarahSignin [sarah]) = 200"
  by code_simp

text \<open>
  Both passwords of that request are present, so the handler's guard
  \<open>!currentPassword || !newPassword\<close> lets it through.
\<close>

theorem password_change_to_stored_hash_writes_nothing_witness:
  "truthy (Some ''Passw0rd'')
   \<and> truthy (Some ''$2a$10$saltsaltsaltsaltsaltsadr0wssaP'')
   \<and> status (fst (changePassword_handler stubLib env2 (Some sarahReq) (Some ''Passw0rd'')
        (Some ''$2a$10$saltsaltsaltsaltsaltsadr0wssaP'') [sarah])) = 200
   \<and> snd (changePassword_handler stubLib env2 (Some sarahReq) (Some ''Passw0rd'')
        (Some ''$2a$10$saltsaltsaltsaltsaltsadr0wssaP'') [sarah]) = [sarah]"
  using password_change_to_stored_hash_writes_nothing by simp

subsection \<open>Surgery date at sign-up and sign-in\<close>

lemma updateUser_surgeryDate_Inr:
  assumes "updateUser l e uid
             \<lparr>ud_firstName = None, ud_lastName = None, ud_email = None, ud_isActive = None,
              ud_surgeryDate = Some d, ud_preferences = None\<rparr> users = Inr (r, users')"
    and "castObjectId uid = Inr oid"
  shows "\<exists>u. find (\<lambda>x. u_id x = oid) users' = Some u \<and> u_surgeryDate u = Some d"
proof -
  let ?upd = "\<lparr>ud_firstName = None, ud_lastName = None, ud_email = None, ud_isActive = None,
              ud_surgeryDate = Some d, ud_preferences = None\<rparr>"
  from assms obtain u0 where f: "find (\<lambda>x. u_id x = oid) users = Some u0"
    by (auto simp: updateUser_def findById_def split: option.splits)
  then have id0: "u_id u0 = oid"
    by (auto dest: find_Some_iff [THEN iffD1])
  let ?d = "set_surgeryDate d (loaded (select_minus_password u0))"
  have as: "assign ?upd (loaded (select_minus_password u0)) = ?d"
    by (simp add: assign_def)
  from assms f as obtain dd where s: "save l e ?d users = Inr (dd, users')"
    by (auto simp: updateUser_def findById_def Let_def split: sum.splits if_splits)
  show ?thesis
  proof (cases "u_surgeryDate u0 = Some d")
    case True
    then have "modified ?d = []" "isNew ?d = False"
      by (simp_all add: set_surgeryDate_def markModified_def loaded_def select_minus_password_def)
    with s have "users' = users"
      by (auto simp: save_def preSave_def isModified_def Let_def split: list.splits if_splits)
    with f True show ?thesis by simp
  next
    case False
    then have m: "modified ?d = [''surgeryDate'']" "isNew ?d = False"
      "vals ?d = (select_minus_password u0)\<lparr>u_surgeryDate := Some d\<rparr>"
      by (simp_all add: set_surgeryDate_def markModified_def loaded_def select_minus_password_def)
    with s id0 have "users' = updateFirst (\<lambda>x. u_id x = oid)
                   (\<lambda>x. (writePaths [''surgeryDate'']
                            ((select_minus_password u0)\<lparr>u_surgeryDate := Some d\<rparr>) x)
                           \<lparr>u_updatedAt := e_now e\<rparr>) users"
      by (auto simp: save_def preSave_def isModified_def Let_def select_minus_password_def
          split: list.splits if_splits)
    then have "find (\<lambda>x. u_id x = oid) users'
        = map_option (\<lambda>x. (writePaths [''surgeryDate'']
                            ((select_minus_password u0)\<lparr>u_surgeryDate := Some d\<rparr>) x)
                           \<lparr>u_updatedAt := e_now e\<rparr>) (find (\<lambda>x. u_id x = oid) users)"
      by (simp add: find_updateFirst writePaths_def)
    with f show ?thesis by (simp add: writePaths_def)
  qed
qed

lemma updateSurgeryDate_200:
  assumes "updateSurgeryDate l e (Some ru) sdate users = (res, users')" and "status res = 200"
    and "castObjectId (ru_id ru) = Inr oid"
  shows "\<exists>s d u. sdate = Some s \<and> Date_parse l s = Some d \<and> d \<le> e_now e
           \<and> find (\<lambda>x. u_id x = oid) users' = Some u \<and> u_surgeryDate u = Some d"
proof -
  from assms(1,2) obtain s d r where
    a: "sdate = Some s" "Date_parse l s = Some d" "d \<le> e_now e"
    and u: "updateUser l e (ru_id ru)
             \<lparr>ud_firstName = None, ud_lastName = None, ud_email = None, ud_isActive = None,
              ud_surgeryDate = Some d, ud_preferences = None\<rparr> users = Inr (r, users')"
    by (auto simp: updateSurgeryDate_def unauthorized_def surgeryDateInvalid_def unexpected_def
        userNotFound_def Let_def split: option.splits if_splits sum.splits)
  from updateUser_surgeryDate_Inr [OF u assms(3)] a show ?thesis by blast
qed

text \<open>
  Claim C10. A sign-up that is answered with 201 stores the new user with
  \<open>surgeryDate\<close> null, whatever the body carried; the response echoes the
  \<open>surgeryDate\<close> of the body (null when it is absent or empty) with \<open>recoveryDay\<close> 0.
  Every successful sign-in reports \<open>surgeryDate\<close> null and \<open>recoveryDay\<close> 0, whatever
  the store holds. A successful \<open>PATCH /auth/surgery-date\<close> is what stores the date.
\<close>

theorem signup_echoes_and_signin_hides_surgeryDate:
  assumes "signup l e rb users = (res, users')" and "status res = 201"
  shows "(\<exists>u. users' = users @ [u] \<and> u_surgeryDate u = None)
       \<and> jpath [''data'', ''user'', ''surgeryDate''] (body res)
           = (case sb_surgeryDate rb of
                None \<Rightarrow> JNull
              | Some sd \<Rightarrow> if sd = [] then JNull else JStr sd)
       \<and> jpath [''data'', ''user'', ''recoveryDay''] (body res) = JNum 0
       \<and> (\<forall>t sb db. status (signin l t sb db) = 200 \<longrightarrow>
             jpath [''data'', ''user'', ''surgeryDate''] (body (signin l t sb db)) = JNull
           \<and> jpath [''data'', ''user'', ''recoveryDay''] (body (signin l t sb db)) = JNum 0)
       \<and> (\<forall>e' ru sdate db res' db' oid.
             updateSurgeryDate l e' (Some ru) sdate db = (res', db') \<and> status res' = 200
             \<and> castObjectId (ru_id ru) = Inr oid \<longrightarrow>
             (\<exists>s d u. sdate = Some s \<and> Date_parse l s = Some d
                \<and> find (\<lambda>x. u_id x = oid) db' = Some u \<and> u_surgeryDate u = Some d))"
proof -
  from signup_201 [OF assms] obtain fname lname em pw u where
    u: "users' = users @ [u]"
    and ueq: "u = \<lparr>u_id = e_newId e, u_firstName = trim (trim fname),
                 u_lastName = trim (trim lname),
                 u_email = toLowerCase (trim (toLowerCase (trim em))),
                 u_password = Some (hashSync l (e_salt e) pw),
                 u_surgeryDate = None, u_recoveryDay = 0, u_isActive = True,
                 u_preferences = JObj [], u_createdAt = e_now e, u_updatedAt = e_now e\<rparr>"
    and b: "body res = JObj
              [(''success'', JBool True),
               (''data'', JObj
                  [(''user'', JObj
                      [(''id'', JStr (u_id u)),
                       (''firstName'', JStr (u_firstName u)),
                       (''lastName'', JStr (u_lastName u)),
                       (''email'', JStr (u_email u)),
                       (''surgeryDate'',
                          (case sb_surgeryDate rb of
                             None \<Rightarrow> JNull
                           | Some sd \<Rightarrow> if sd = [] then JNull else JStr sd)),
                       (''recoveryDay'', JNum 0)]),
                   (''token'', JStr (generateToken l (e_now e) u))]),
               (''message'', JStr ''User created successfully'')]"
    by blast
  from ueq have sdn: "u_surgeryDate u = None" by simp
  have si: "jpath [''data'', ''user'', ''surgeryDate''] (body (signin l t sb db)) = JNull
           \<and> jpath [''data'', ''user'', ''recoveryDay''] (body (signin l t sb db)) = JNum 0"
    if "status (signin l t sb db) = 200" for t sb db
    using that
    by (auto simp: signin_def Let_def validationFailed_def authenticationFailed_def jpath_def
        split: if_splits option.splits sum.splits)
  have p: "jpath [''data'', ''user'', ''surgeryDate''] (body res)
           = (case sb_surgeryDate rb of
                None \<Rightarrow> JNull
              | Some sd \<Rightarrow> if sd = [] then JNull else JStr sd)"
       "jpath [''data'', ''user'', ''recoveryDay''] (body res) = JNum 0"
    unfolding b by (simp_all add: jpath_def)
  have pa: "\<exists>s d u. sdate = Some s \<and> Date_parse l s = Some d
                \<and> find (\<lambda>x. u_id x = oid) db' = Some u \<and> u_surgeryDate u = Some d"
    if "updateSurgeryDate l e' (Some ru) sdate db = (res', db') \<and> status res' = 200
             \<and> castObjectId (ru_id ru) = Inr oid"
    for e' ru sdate db res' db' oid
    using updateSurgeryDate_200 [of l e' ru sdate db res' db' oid] that by blast
  from u sdn have "\<exists>u. users' = users @ [u] \<and> u_surgeryDate u = None" by blast
  with p si pa show ?thesis by blast
qed

lemma ev_signup_body:
  "jpath [''data'', ''user'', ''surgeryDate''] (body (fst (signup stubLib env0 sarahSignup [])))
     = JStr ''2024-01-10''"
  by code_simp

lemma ev_patch_store:
  "snd (updateSurgeryDate stubLib env1 (Some sarahReq) (Some ''2024-01-15'') [sarah])
     = [sarah\<lparr>u_surgeryDate := Some 1705276800000, u_updatedAt := 1705320000000\<rparr>]"
  by code_simp

lemma ev_patch_status:
  "status (fst (updateSurgeryDate stubLib env1 (Some sarahReq) (Some ''2024-01-15'') [sarah]))
     = 200"
  by code_simp

lemma ev_signin_patched:
  "status (signin stubLib 1705323600000 sarahSignin
             [sarah\<lparr>u_surgeryDate := Some 1705276800000, u_updatedAt := 1705320000000\<rparr>]) = 200"
  by code_simp

theorem signup_echoes_and_signin_hides_surgeryDate_witness:
  "status (fst (signup stubLib env0 sarahSignup [])) = 201
   \<and> snd (signup stubLib env0 sarahSignup []) = [sarah]
   \<and> u_surgeryDate sarah = None
   \<and> jpath [''data'', ''user'', ''surgeryDate''] (body (fst (signup stubLib env0 sarahSignup [])))
       = JStr ''2024-01-10''
   \<and> jpath [''data'', ''user'', ''recoveryDay''] (body (fst (signup stubLib env0 sarahSignup [])))
       = JNum 0
   \<and> status (fst (updateSurgeryDate stubLib env1 (Some sarahReq) (Some ''2024-01-15'') [sarah]))
       = 200
   \<and> map u_surgeryDate
         (snd (updateSurgeryDate stubLib env1 (Some sarahReq) (Some ''2024-01-15'') [sarah]))
       = [Some 1705276800000]
   \<and> status (signin stubLib 1705323600000 sarahSignin
                [sarah\<lparr>u_surgeryDate := Some 1705276800000, u_updatedAt := 1705320000000\<rparr>])
       = 200
   \<and> jpath [''data'', ''user'', ''surgeryDate'']
         (body (signin stubLib 1705323600000 sarahSignin
                  [sarah\<lparr>u_surgeryDate := Some 1705276800000, u_updatedAt := 1705320000000\<rparr>]))
       = JNull
   \<and> jpath [''data'', ''user'', ''recoveryDay'']
         (body (signin stubLib 1705323600000 sarahSignin
                  [sarah\<lparr>u_surgeryDate := Some 1705276800000, u_updatedAt := 1705320000000\<rparr>]))
       = JNum 0"
proof -
  note t = signup_echoes_and_signin_hides_surgeryDate [OF signup_sarah signup_sarah_status]
  from t have a: "jpath [''data'', ''user'', ''recoveryDay'']
                    (body (fst (signup stubLib env0 sarahSignup []))) = JNum 0"
    by (elim conjE)
  from t have si: "\<forall>t sb db. status (signin stubLib t sb db) = 200 \<longrightarrow>
             jpath [''data'', ''user'', ''surgeryDate''] (body (signin stubLib t sb db)) = JNull
           \<and> jpath [''data'', ''user'', ''recoveryDay''] (body (signin stubLib t sb db)) = JNum 0"
    by (elim conjE)
  from si [rule_format, OF ev_signin_patched]
  have b1: "jpath [''data'', ''user'', ''surgeryDate'']
         (body (signin stubLib 1705323600000 sarahSignin
                  [sarah\<lparr>u_surgeryDate := Some 1705276800000, u_updatedAt := 1705320000000\<rparr>]))
       = JNull"
    and b2: "jpath [''data'', ''user'', ''recoveryDay'']
         (body (signin stubLib 1705323600000 sarahSignin
                  [sarah\<lparr>u_surgeryDate := Some 1705276800000, u_updatedAt := 1705320000000\<rparr>]))
       = JNum 0"
    by simp_all
  have c: "u_surgeryDate sarah = None" by (simp add: sarah_def)
  have d: "map u_surgeryDate
         (snd (updateSurgeryDate stubLib env1 (Some sarahReq) (Some ''2024-01-15'') [sarah]))
       = [Some 1705276800000]"
    by (simp add: ev_patch_store)
  show ?thesis
    by (intro conjI)
       (fact signup_sarah_status, fact signup_sarah_store, fact c, fact ev_signup_body, fact a,
        fact ev_patch_status, fact d, fact ev_signin_patched, fact b1, fact b2)
qed

end
